theory Spec2Isabelle
  imports Complex_Main "HOL-Library.Sublist"
begin

text \<open>
  A shallow embedding of the visitor-enrichment code of the tracking application: the
  server-side utilities \<open>ServerTracker\<close> (IP extraction, VPN, threat and connection
  heuristics, the device fingerprint), the tracking route with its multi-provider
  geolocation fallback, the local helpers of the route \<open>/api/track\<close>, and the
  \<open>GET\<close> handler of the admin dashboard. The definitions come first, the properties
  after them.
\<close>

section \<open>JavaScript strings\<close>

text \<open>
  A JavaScript string is a sequence of code units. The model keeps the code units
  0..255 (type \<open>char\<close>): header values are byte strings, and every keyword the
  program searches for is ASCII. \<open>charCodeAt\<close> is \<open>of_char\<close>.
\<close>

text \<open>\<open>String.prototype.toLowerCase\<close> on the code units 0..255: the ASCII capitals and
  the Latin-1 capitals (U+00C0..U+00DE without the multiplication sign U+00D7) move up
  by 32, everything else stays.\<close>

definition lowerChar :: "char \<Rightarrow> char" where
  "lowerChar c =
     (let n = (of_char c :: nat)
      in if (65 \<le> n \<and> n \<le> 90) \<or> (192 \<le> n \<and> n \<le> 222 \<and> n \<noteq> 215)
         then char_of (n + 32) else c)"

definition toLowerCase :: "string \<Rightarrow> string" where
  "toLowerCase s = map lowerChar s"

text \<open>\<open>s.includes(t)\<close>: \<open>t\<close> occurs in \<open>s\<close> as a contiguous run.\<close>

fun includesStr :: "string \<Rightarrow> string \<Rightarrow> bool" where
  "includesStr [] t = (t = [])"
| "includesStr (c # cs) t = (prefix t (c # cs) \<or> includesStr cs t)"

text \<open>\<open>s.startsWith(t)\<close>.\<close>

definition startsWith :: "string \<Rightarrow> string \<Rightarrow> bool" where
  "startsWith s t = prefix t s"

text \<open>White space and line terminators among the code units 0..255: what \<open>trim\<close>
  strips and what the regular expression class \<open>\s\<close> matches.\<close>

definition isSpace :: "char \<Rightarrow> bool" where
  "isSpace c = ((of_char c :: nat) \<in> {9, 10, 11, 12, 13, 32, 160})"

definition trim :: "string \<Rightarrow> string" where
  "trim s = rev (dropWhile isSpace (rev (dropWhile isSpace s)))"

text \<open>\<open>s.split(sep)\<close> for a one-character separator: never the empty array.\<close>

fun split :: "char \<Rightarrow> string \<Rightarrow> string list" where
  "split sep [] = [[]]"
| "split sep (c # cs) =
     (if c = sep then [] # split sep cs
      else (case split sep cs of
              [] \<Rightarrow> [[c]]
            | w # ws \<Rightarrow> (c # w) # ws))"

text \<open>\<open>parts.join(sep)\<close>.\<close>

fun join :: "string \<Rightarrow> string list \<Rightarrow> string" where
  "join sep [] = []"
| "join sep [x] = x"
| "join sep (x # y # ys) = x @ sep @ join sep (y # ys)"

section \<open>Request headers and the IP resolver\<close>

text \<open>\<open>Headers.get(name)\<close> is \<open>null\<close> for an absent header: a partial map from
  the lower-case header name to its value. A value passes \<open>if (v)\<close> when it is present
  and not the empty string.\<close>

type_synonym headers = "string \<rightharpoonup> string"

definition truthyStr :: "string option \<Rightarrow> bool" where
  "truthyStr v = (case v of None \<Rightarrow> False | Some s \<Rightarrow> s \<noteq> [])"

text \<open>\<open>forwarded.match(/for=([^;,\s]+)/)\<close>: the leftmost place where \<open>for=\<close> is followed by
  at least one character other than \<open>;\<close>, \<open>,\<close> and white space; group 1 is the longest
  run of such characters there. \<open>None\<close> is the \<open>null\<close> of no match.\<close>

definition forTokenChar :: "char \<Rightarrow> bool" where
  "forTokenChar c = (c \<noteq> CHR '';'' \<and> c \<noteq> CHR '','' \<and> \<not> isSpace c)"

fun matchFor :: "string \<Rightarrow> string option" where
  "matchFor [] = None"
| "matchFor (c # cs) =
     (if prefix ''for='' (c # cs) \<and> takeWhile forTokenChar (drop 4 (c # cs)) \<noteq> []
      then Some (takeWhile forTokenChar (drop 4 (c # cs)))
      else matchFor cs)"

text \<open>\<open>ServerTracker.extractClientIP\<close>.\<close>

definition extractClientIP :: "headers \<Rightarrow> string" where
  "extractClientIP headers =
     (let cfConnectingIP = headers ''cf-connecting-ip'' in
      if truthyStr cfConnectingIP then the cfConnectingIP else
      let xForwardedFor = headers ''x-forwarded-for'' in
      if truthyStr xForwardedFor then trim (hd (split CHR '','' (the xForwardedFor))) else
      let xRealIP = headers ''x-real-ip'' in
      if truthyStr xRealIP then the xRealIP else
      let xClientIP = headers ''x-client-ip'' in
      if truthyStr xClientIP then the xClientIP else
      let xForwarded = headers ''x-forwarded'' in
      if truthyStr xForwarded then the xForwarded else
      let forwardedFor = headers ''forwarded-for'' in
      if truthyStr forwardedFor then the forwardedFor else
      let forwarded = headers ''forwarded'' in
      if truthyStr forwarded \<and> matchFor (the forwarded) \<noteq> None
      then the (matchFor (the forwarded))
      else ''127.0.0.1'')"

text \<open>\<open>getRealIP\<close>, the local helper of the route \<open>/api/track\<close>: three headers
  only, and \<open>x-real-ip\<close> before \<open>x-forwarded-for\<close>.\<close>

definition getRealIP :: "headers \<Rightarrow> string" where
  "getRealIP headers =
     (let forwarded = headers ''x-forwarded-for'';
          realIP = headers ''x-real-ip'';
          cfConnectingIP = headers ''cf-connecting-ip''
      in if truthyStr cfConnectingIP then the cfConnectingIP
         else if truthyStr realIP then the realIP
         else if truthyStr forwarded then trim (hd (split CHR '','' (the forwarded)))
         else ''127.0.0.1'')"






section \<open>JSON values and geolocation records\<close>

text \<open>A JavaScript number as far as the program looks at it: the program only tests
  numbers for truthiness and compares them with zero. \<open>NaN\<close> and \<open>0\<close> are falsy.\<close>

datatype jsnum = NaN | PosInf | NegInf | Num real

definition truthyNum :: "jsnum \<Rightarrow> bool" where
  "truthyNum n = (n \<noteq> NaN \<and> n \<noteq> Num 0)"

text \<open>What \<open>response.json()\<close> yields has the type \<open>any\<close>: a JSON value. \<open>JUndefined\<close> is
  the value of reading a property that is not there. An object lists its properties,
  each name once.\<close>

datatype jsval =
    JUndefined
  | JNull
  | JBool bool
  | JNumber jsnum
  | JString string
  | JArray "jsval list"
  | JObject "(string \<times> jsval) list"

text \<open>The interface \<open>GeoLocationData\<close>. The field \<open>threat\<close> is optional. The fields
  \<open>query\<close> and \<open>timezone\<close> are kept as JSON values: the handler fills them from the
  answer of the echo service and from the request body without a check, and reads
  neither of them as a string.\<close>

record GeoLocationData =
  geo_query :: jsval
  geo_status :: string
  geo_country :: string
  geo_countryCode :: string
  geo_region :: string
  geo_regionName :: string
  geo_city :: string
  geo_zip :: string
  geo_lat :: jsnum
  geo_lon :: jsnum
  geo_timezone :: jsval
  geo_isp :: string
  geo_org :: string
  geo_as :: string
  geo_reverse :: string
  geo_mobile :: bool
  geo_proxy :: bool
  geo_hosting :: bool
  geo_threat :: "string option"

section \<open>The heuristic classifier\<close>

definition vpnIndicators :: "string list" where
  "vpnIndicators =
     [''vpn'', ''proxy'', ''tor'', ''nord'', ''express'', ''surfshark'', ''cyberghost'',
      ''private internet access'', ''pia'', ''tunnelbear'', ''hotspot shield'',
      ''windscribe'', ''protonvpn'', ''mullvad'', ''purevpn'', ''ipvanish'',
      ''hide.me'', ''zenmate'', ''hola'', ''betternet'']"

definition suspiciousIsps :: "string list" where
  "suspiciousIsps =
     [''digitalocean'', ''amazon'', ''google cloud'', ''microsoft azure'',
      ''vultr'', ''linode'', ''ovh'', ''hetzner'', ''scaleway'']"

text \<open>\<open>ServerTracker.detectVPN\<close>. The lower-cased user agent is only logged.\<close>

definition detectVPN :: "GeoLocationData \<Rightarrow> string \<Rightarrow> bool" where
  "detectVPN geoData userAgent =
     (let isp = toLowerCase (geo_isp geoData);
          org = toLowerCase (geo_org geoData);
          hasVpnIndicator =
            list_ex (\<lambda>indicator. includesStr isp indicator \<or> includesStr org indicator)
              vpnIndicators;
          isSuspiciousIsp =
            list_ex (\<lambda>provider. includesStr isp provider \<or> includesStr org provider)
              suspiciousIsps;
          hasProxyFlag = (geo_proxy geoData \<or> geo_hosting geoData)
      in hasVpnIndicator \<or> hasProxyFlag \<or> isSuspiciousIsp)"

definition suspiciousUAPatterns :: "string list" where
  "suspiciousUAPatterns =
     [''bot'', ''crawler'', ''spider'', ''scraper'', ''curl'', ''wget'', ''python'',
      ''java'', ''php'', ''ruby'', ''perl'', ''go-http-client'', ''okhttp'']"

text \<open>\<open>ServerTracker.getThreatLevel\<close>.\<close>

definition getThreatLevel :: "GeoLocationData \<Rightarrow> bool \<Rightarrow> string \<Rightarrow> string" where
  "getThreatLevel geoData isVPN userAgent =
     (if truthyStr (geo_threat geoData) \<and> geo_threat geoData \<noteq> Some ''low''
      then the (geo_threat geoData)
      else if isVPN \<or> geo_proxy geoData then ''medium''
      else if geo_hosting geoData then ''medium''
      else let ua = toLowerCase userAgent;
               hasSuspiciousUA = list_ex (\<lambda>pattern. includesStr ua pattern) suspiciousUAPatterns
           in if hasSuspiciousUA then ''medium'' else ''low'')"

text \<open>\<open>ServerTracker.getConnectionType\<close>.\<close>

definition getConnectionType :: "string \<Rightarrow> GeoLocationData \<Rightarrow> string" where
  "getConnectionType userAgent geoData =
     (if geo_mobile geoData then ''Mobile''
      else let ua = toLowerCase userAgent
           in if includesStr ua ''mobile'' then ''Mobile''
              else if includesStr ua ''tablet'' \<or> includesStr ua ''ipad'' then ''Tablet''
              else if includesStr ua ''smart-tv'' \<or> includesStr ua ''tv'' then ''Smart TV''
              else if includesStr ua ''playstation'' \<or> includesStr ua ''xbox''
                      \<or> includesStr ua ''nintendo'' then ''Gaming Console''
              else ''Broadband'')"

subsection \<open>The device fingerprint\<close>

text \<open>\<open>ToInt32\<close>: the value modulo \<open>2^32\<close>, read as a signed 32-bit integer. Every
  intermediate value of the hash is an integer far below \<open>2^53\<close>, so the arithmetic of
  JavaScript numbers is exact there and \<open>int\<close> models it.\<close>

definition toInt32 :: "int \<Rightarrow> int" where
  "toInt32 x = (x + 2 ^ 31) mod 2 ^ 32 - 2 ^ 31"

text \<open>\<open>x << n\<close> and \<open>x & y\<close>.\<close>

definition shiftLeft32 :: "int \<Rightarrow> nat \<Rightarrow> int" where
  "shiftLeft32 x n = toInt32 (toInt32 x * 2 ^ (n mod 32))"

definition bitAnd32 :: "int \<Rightarrow> int \<Rightarrow> int" where
  "bitAnd32 x y = toInt32 (and (toInt32 x) (toInt32 y))"

text \<open>The loop over the characters, the accumulator \<open>hash\<close> first.\<close>

fun hashChars :: "int \<Rightarrow> string \<Rightarrow> int" where
  "hashChars hash [] = hash"
| "hashChars hash (c # cs) =
     (let char = of_char c;
          hash1 = (shiftLeft32 hash 5 - hash) + char;
          hash2 = bitAnd32 hash1 hash1
      in hashChars hash2 cs)"

text \<open>\<open>n.toString(36)\<close> for a natural number.\<close>

definition digit36 :: "nat \<Rightarrow> char" where
  "digit36 d = ''0123456789abcdefghijklmnopqrstuvwxyz'' ! d"

function toString36 :: "nat \<Rightarrow> string" where
  "toString36 n =
     (if n < 36 then [digit36 n] else toString36 (n div 36) @ [digit36 (n mod 36)])"
  by pat_completeness auto
termination
  by (relation "measure id") auto

declare toString36.simps [simp del]

text \<open>\<open>headers[name] || ''\<close>.\<close>

definition orEmpty :: "string option \<Rightarrow> string" where
  "orEmpty v = (case v of None \<Rightarrow> [] | Some s \<Rightarrow> s)"

definition fingerprintData :: "string \<Rightarrow> headers \<Rightarrow> string" where
  "fingerprintData userAgent headers =
     join ''|''
       [userAgent,
        orEmpty (headers ''accept-language''),
        orEmpty (headers ''accept-encoding''),
        orEmpty (headers ''accept''),
        orEmpty (headers ''dnt''),
        orEmpty (headers ''upgrade-insecure-requests'')]"

text \<open>\<open>ServerTracker.generateDeviceFingerprint\<close>.\<close>

definition generateDeviceFingerprint :: "string \<Rightarrow> headers \<Rightarrow> string" where
  "generateDeviceFingerprint userAgent headers =
     (let hash = hashChars 0 (fingerprintData userAgent headers)
      in toString36 (nat \<bar>hash\<bar>))"

subsection \<open>The local helpers of the route \<open>/api/track\<close>\<close>

text \<open>\<open>detectVPN\<close> of that route: a shorter keyword list, searched in the user agent
  too, and no list of hosting providers.\<close>

definition route_vpnIndicators :: "string list" where
  "route_vpnIndicators =
     [''vpn'', ''proxy'', ''tor'', ''nord'', ''express'', ''surfshark'',
      ''cyberghost'', ''private internet access'', ''pia'']"

definition route_detectVPN :: "GeoLocationData \<Rightarrow> string \<Rightarrow> bool" where
  "route_detectVPN geoData userAgent =
     (let isp = toLowerCase (geo_isp geoData);
          org = toLowerCase (geo_org geoData);
          ua = toLowerCase userAgent
      in list_ex (\<lambda>indicator. includesStr isp indicator \<or> includesStr org indicator
                                \<or> includesStr ua indicator) route_vpnIndicators
         \<or> geo_proxy geoData \<or> geo_hosting geoData)"

text \<open>\<open>getThreatLevel\<close> of that route: no look at the user agent.\<close>

definition route_getThreatLevel :: "GeoLocationData \<Rightarrow> bool \<Rightarrow> string" where
  "route_getThreatLevel geoData isVPN =
     (if truthyStr (geo_threat geoData) \<and> geo_threat geoData \<noteq> Some ''low''
      then the (geo_threat geoData)
      else if isVPN \<or> geo_proxy geoData then ''medium''
      else if geo_hosting geoData then ''medium''
      else ''low'')"

text \<open>\<open>getConnectionType\<close> of that route: case-sensitive, two device classes.\<close>

definition route_getConnectionType :: "string \<Rightarrow> GeoLocationData \<Rightarrow> string" where
  "route_getConnectionType userAgent geoData =
     (if geo_mobile geoData then ''Mobile''
      else if includesStr userAgent ''Mobile'' then ''Mobile''
      else if includesStr userAgent ''Tablet'' then ''Tablet''
      else ''Broadband'')"

section \<open>Reading JSON values, and outbound calls\<close>

definition truthy :: "jsval \<Rightarrow> bool" where
  "truthy v =
     (case v of
        JUndefined \<Rightarrow> False
      | JNull \<Rightarrow> False
      | JBool b \<Rightarrow> b
      | JNumber n \<Rightarrow> truthyNum n
      | JString s \<Rightarrow> s \<noteq> []
      | JArray _ \<Rightarrow> True
      | JObject _ \<Rightarrow> True)"

text \<open>\<open>a || b\<close>.\<close>

definition jsOr :: "jsval \<Rightarrow> jsval \<Rightarrow> jsval" where
  "jsOr a b = (if truthy a then a else b)"

text \<open>\<open>data.name\<close> on a value other than \<open>null\<close> and \<open>undefined\<close> (on those the read
  throws a TypeError; every caller below tests for them first, or ends in the error
  envelope either way): the own property of an object, \<open>undefined\<close> on everything else.
  None of the property names the program reads this way is a built-in property of a
  string, number, boolean or array; \<open>length\<close>, which is one, is read with \<open>lengthProp\<close>
  below.\<close>

definition nullish :: "jsval \<Rightarrow> bool" where
  "nullish v = (v = JNull \<or> v = JUndefined)"

definition getField :: "jsval \<Rightarrow> string \<Rightarrow> jsval" where
  "getField v name =
     (case v of
        JObject props \<Rightarrow> (case map_of props name of Some x \<Rightarrow> x | None \<Rightarrow> JUndefined)
      | _ \<Rightarrow> JUndefined)"

text \<open>Every way one attempt or the whole resolution can fail.\<close>

datatype error =
    FetchTimeout
  | FetchFailed
  | HttpError nat string
  | BodyNotJson
  | TypeError
  | ApiStatusError jsval
  | ApiErrorFlag jsval
  | AllFailed

text \<open>The outcome of one \<open>fetch\<close>: the abort signal fires first (\<open>Timeout\<close>), the call
  fails otherwise, or a response arrives with its status and, when the body parses, its
  JSON. The network is the map from the requested URL to the outcome. How long a call
  takes is not modelled: a time limit shows as the outcome \<open>Timeout\<close>. The providers
  are fetched with \<open>AbortSignal.timeout(5000)\<close>; the echo service with a signal that a
  timer aborts after 3000 ms and that is disarmed as soon as the response has arrived,
  before its body is read.\<close>

datatype fetch_result =
    Timeout
  | NetworkError
  | Response nat string "jsval option"

type_synonym network = "string \<Rightarrow> fetch_result"

text \<open>\<open>response.ok\<close>.\<close>

definition ok :: "nat \<Rightarrow> bool" where
  "ok status = (200 \<le> status \<and> status \<le> 299)"

section \<open>The geolocation resolver with fallback\<close>

record api =
  api_name :: string
  api_url :: string
  api_transform :: "jsval \<Rightarrow> error + jsval"

text \<open>The transform of \<open>ip-api.com\<close>: the identity.\<close>

definition transform_ip_api :: "jsval \<Rightarrow> error + jsval" where
  "transform_ip_api data = Inr data"

text \<open>The transform of \<open>ipapi.co\<close>.\<close>

definition transform_ipapi_co :: "string \<Rightarrow> jsval \<Rightarrow> error + jsval" where
  "transform_ipapi_co ip data =
     (if nullish data then Inl TypeError
      else Inr (JObject
        [(''query'', JString ip),
         (''status'', JString ''success''),
         (''country'', jsOr (getField data ''country_name'') (JString ''Unknown'')),
         (''countryCode'', jsOr (getField data ''country_code'') (JString ''XX'')),
         (''region'', jsOr (getField data ''region_code'') (JString ''XX'')),
         (''regionName'', jsOr (getField data ''region'') (JString ''Unknown'')),
         (''city'', jsOr (getField data ''city'') (JString ''Unknown'')),
         (''zip'', jsOr (getField data ''postal'') (JString ''Unknown'')),
         (''lat'', jsOr (getField data ''latitude'') (JNumber (Num 0))),
         (''lon'', jsOr (getField data ''longitude'') (JNumber (Num 0))),
         (''timezone'', jsOr (getField data ''timezone'') (JString ''UTC'')),
         (''isp'', jsOr (getField data ''org'') (JString ''Unknown ISP'')),
         (''org'', jsOr (getField data ''org'') (JString ''Unknown Organization'')),
         (''as'', jsOr (getField data ''asn'') (JString ''Unknown'')),
         (''reverse'', JString ''Unknown''),
         (''mobile'', JBool False),
         (''proxy'', JBool False),
         (''hosting'', JBool False)]))"

text \<open>The transform of \<open>ipinfo.io\<close>. \<open>Number\<close> is the built-in conversion of a string
  to a number, a parameter of the model. \<open>(loc || '0,0').split(',')\<close> throws a TypeError
  when \<open>loc\<close> is truthy and not a string; a missing array element is \<open>undefined\<close>.\<close>

definition numberOr0 :: "jsnum option \<Rightarrow> jsval" where
  "numberOr0 n =
     (case n of
        None \<Rightarrow> JNumber (Num 0)
      | Some x \<Rightarrow> if truthyNum x then JNumber x else JNumber (Num 0))"

definition nthOpt :: "'a list \<Rightarrow> nat \<Rightarrow> 'a option" where
  "nthOpt xs i = (if i < length xs then Some (xs ! i) else None)"

definition transform_ipinfo :: "(string \<Rightarrow> jsnum) \<Rightarrow> string \<Rightarrow> jsval \<Rightarrow> error + jsval" where
  "transform_ipinfo Number ip data =
     (if nullish data then Inl TypeError
      else let loc = getField data ''loc'' in
        (case jsOr loc (JString ''0,0'') of
           JString s \<Rightarrow>
             (let nums = map Number (split CHR '','' s);
                  lat = nthOpt nums 0;
                  lon = nthOpt nums 1
              in Inr (JObject
                [(''query'', JString ip),
                 (''status'', JString ''success''),
                 (''country'', jsOr (getField data ''country'') (JString ''Unknown'')),
                 (''countryCode'', jsOr (getField data ''country'') (JString ''XX'')),
                 (''region'', jsOr (getField data ''region'') (JString ''XX'')),
                 (''regionName'', jsOr (getField data ''region'') (JString ''Unknown'')),
                 (''city'', jsOr (getField data ''city'') (JString ''Unknown'')),
                 (''zip'', jsOr (getField data ''countryCode'') (JString ''Unknown'')),
                 (''lat'', numberOr0 lat),
                 (''lon'', numberOr0 lon),
                 (''timezone'', jsOr (getField data ''timezone'') (JString ''UTC'')),
                 (''isp'', jsOr (getField data ''org'') (JString ''Unknown ISP'')),
                 (''org'', jsOr (getField data ''org'') (JString ''Unknown Organization'')),
                 (''as'', JString ''Unknown''),
                 (''reverse'', jsOr (getField data ''isp'') (JString ''Unknown'')),
                 (''longitude'', jsOr (getField data ''lon'') (JNumber (Num 0))),
                 (''latitude'', jsOr (getField data ''lat'') (JNumber (Num 0))),
                 (''mobile'', JBool False),
                 (''proxy'', JBool False),
                 (''hosting'', JBool False)]))
         | _ \<Rightarrow> Inl TypeError))"

text \<open>The configured providers, in their order.\<close>

definition apis :: "(string \<Rightarrow> jsnum) \<Rightarrow> string \<Rightarrow> api list" where
  "apis Number ip =
     [\<lparr>api_name = ''ip-api.com'',
       api_url = ''http://ip-api.com/json/'' @ ip @
         ''?fields=status,message,country,countryCode,region,regionName,city,zip,lat,lon,timezone,isp,org,as,reverse,mobile,proxy,hosting,query&lang=en'',
       api_transform = transform_ip_api\<rparr>,
      \<lparr>api_name = ''ipapi.co'',
       api_url = ''https://ipapi.co/'' @ ip @ ''/json/'',
       api_transform = transform_ipapi_co ip\<rparr>,
      \<lparr>api_name = ''ipinfo.io'',
       api_url = ''https://ipinfo.io/'' @ ip @ ''/json'',
       api_transform = transform_ipinfo Number ip\<rparr>]"

text \<open>The simulated record returned for a local address.\<close>

definition localhostGeo :: "jsval \<Rightarrow> jsval" where
  "localhostGeo ip =
     JObject
       [(''query'', ip),
        (''status'', JString ''success''),
        (''country'', JString ''United Kingdom''),
        (''countryCode'', JString ''GB''),
        (''region'', JString ''ENG''),
        (''regionName'', JString ''England''),
        (''city'', JString ''London''),
        (''zip'', JString ''EC1A 1BB''),
        (''lat'', JNumber (Num 51.5074)),
        (''lon'', JNumber (Num (- 0.1278))),
        (''timezone'', JString ''Europe/London''),
        (''isp'', JString ''Development Network''),
        (''org'', JString ''Local Development Environment''),
        (''as'', JString ''AS0 Localhost''),
        (''reverse'', JString ''localhost.localdomain''),
        (''mobile'', JBool False),
        (''proxy'', JBool False),
        (''hosting'', JBool True)]"

text \<open>The two provider-specific error conditions, tested on the parsed body in this
  order; \<open>data.status\<close> and \<open>data.error\<close> throw a TypeError on \<open>null\<close>.\<close>

definition providerError :: "string \<Rightarrow> jsval \<Rightarrow> error option" where
  "providerError name data =
     (if name = ''ip-api.com'' \<and> nullish data then Some TypeError
      else if name = ''ip-api.com'' \<and> getField data ''status'' \<noteq> JString ''success''
        then Some (ApiStatusError (getField data ''status''))
      else if name = ''ipapi.co'' \<and> nullish data then Some TypeError
      else if name = ''ipapi.co'' \<and> truthy (getField data ''error'')
        then Some (ApiErrorFlag (jsOr (getField data ''reason'') (getField data ''error'')))
      else None)"

text \<open>The body of the \<open>try\<close> block for one provider: \<open>Inl\<close> is what the \<open>catch\<close>
  receives.\<close>

definition tryApi :: "network \<Rightarrow> api \<Rightarrow> error + jsval" where
  "tryApi net api =
     (case net (api_url api) of
        Timeout \<Rightarrow> Inl FetchTimeout
      | NetworkError \<Rightarrow> Inl FetchFailed
      | Response status statusText body \<Rightarrow>
          if \<not> ok status then Inl (HttpError status statusText)
          else (case body of
                  None \<Rightarrow> Inl BodyNotJson
                | Some data \<Rightarrow>
                    (case providerError (api_name api) data of
                       Some e \<Rightarrow> Inl e
                     | None \<Rightarrow> api_transform api data)))"

text \<open>The loop over the providers. The second component is the list of the URLs
  fetched, in the order of the calls.\<close>

fun tryApis :: "network \<Rightarrow> api list \<Rightarrow> (error + jsval) \<times> string list" where
  "tryApis net [] = (Inl AllFailed, [])"
| "tryApis net (api # rest) =
     (case tryApi net api of
        Inr transformedData \<Rightarrow> (Inr transformedData, [api_url api])
      | Inl e \<Rightarrow> (case tryApis net rest of (r, calls) \<Rightarrow> (r, api_url api # calls)))"

text \<open>\<open>fetchGeoLocationWithFallback\<close>.\<close>

definition fetchGeoLocationWithFallback ::
    "(string \<Rightarrow> jsnum) \<Rightarrow> network \<Rightarrow> string \<Rightarrow> bool \<Rightarrow> (error + jsval) \<times> string list" where
  "fetchGeoLocationWithFallback Number net ip isLocalhost =
     (if isLocalhost then (Inr (localhostGeo (JString ip)), [])
      else tryApis net (apis Number ip))"

section \<open>The tracking handler\<close>

text \<open>The request body is what \<open>request.json()\<close> yields, any JSON value: the interface
  \<open>ClientFingerprint\<close> is the compiler's view and is not checked at run time. The
  handler calls string methods on \<open>clientData.userAgent\<close> (\<open>toLowerCase\<close> in \<open>detectVPN\<close>
  at the latest, before the insert); on every body other than an object with a string
  \<open>userAgent\<close> one of these calls throws a TypeError, which the outer \<open>catch\<close> answers.\<close>

definition clientUserAgent :: "jsval \<Rightarrow> string option" where
  "clientUserAgent clientData =
     (case getField clientData ''userAgent'' of JString s \<Rightarrow> Some s | _ \<Rightarrow> None)"

text \<open>The conversion of a JSON value to a string in a template literal throws a
  TypeError on an object with a property \<open>toString\<close> of its own (no JSON value can be
  called), and on an array that holds such a value; it yields a string on everything
  else.\<close>

fun templateThrows :: "jsval \<Rightarrow> bool" where
  "templateThrows (JObject props) = (''toString'' \<in> set (map fst props))"
| "templateThrows (JArray items) = list_ex templateThrows items"
| "templateThrows v = False"

text \<open>\<open>v.length\<close>: the length of a string or an array, the property of an object.\<close>

definition lengthProp :: "jsval \<Rightarrow> jsval" where
  "lengthProp v =
     (case v of
        JString s \<Rightarrow> JNumber (Num (real (length s)))
      | JArray items \<Rightarrow> JNumber (Num (real (length items)))
      | _ \<Rightarrow> getField v ''length'')"

text \<open>The response formats three entries of the body with template literals, after
  the insert: \<open>webgl.vendor\<close> and \<open>webgl.renderer\<close>, \<open>fonts.length\<close>, \<open>plugins.length\<close>,
  each only when the entry is truthy. The other entries of the body are copied as they
  are and are left out of the model.\<close>

definition echoThrows :: "jsval \<Rightarrow> bool" where
  "echoThrows clientData =
     (let webgl = getField clientData ''webgl'';
          fonts = getField clientData ''fonts'';
          plugins = getField clientData ''plugins''
      in (truthy webgl \<and> (templateThrows (getField webgl ''vendor'')
                            \<or> templateThrows (getField webgl ''renderer'')))
         \<or> (truthy fonts \<and> templateThrows (lengthProp fonts))
         \<or> (truthy plugins \<and> templateThrows (lengthProp plugins)))"

text \<open>What the handler reads of the result of the library \<open>UAParser\<close>.\<close>

record UAResult =
  ua_deviceType :: "string option"
  ua_browserName :: "string option"
  ua_browserVersion :: "string option"
  ua_osName :: "string option"
  ua_osVersion :: "string option"

record VisitorInfo =
  vi_ip :: string
  vi_country :: string
  vi_region :: string
  vi_city :: string
  vi_latitude :: jsnum
  vi_longitude :: jsnum
  vi_timezone :: jsval
  vi_browser :: string
  vi_os :: string
  vi_device :: string
  vi_userAgent :: string
  vi_isp :: string
  vi_connection :: string
  vi_threat :: string
  vi_vpn :: bool
  vi_proxy :: bool

text \<open>The \<open>data\<close> of \<open>prismadb.visitor.create\<close>.\<close>

record VisitorCreate =
  vc_ip :: string
  vc_country :: string
  vc_region :: string
  vc_city :: string
  vc_latitude :: jsnum
  vc_longitude :: jsnum
  vc_timezone :: jsval
  vc_browser :: string
  vc_os :: string
  vc_device :: string
  vc_userAgent :: string

text \<open>The built-in and library functions the handler calls, and the world it talks to:
  the network, and whether the database accepts the insert. The body of a request is
  \<open>None\<close> when it is not JSON.\<close>

record runtime =
  rt_Number :: "string \<Rightarrow> jsnum"
  rt_UAParser :: "string \<Rightarrow> UAResult"

record world =
  w_net :: network
  w_dbCreate :: "VisitorCreate \<Rightarrow> bool"

record request =
  req_headers :: headers
  req_body :: "jsval option"

text \<open>The parts \<open>security\<close>, \<open>network\<close> and \<open>location\<close> of \<open>detailedAnalysis\<close>. The
  coordinates are kept as the two numbers the response formats into one string.\<close>

record Security =
  sec_threatLevel :: string
  sec_vpnDetected :: bool
  sec_proxyDetected :: bool
  sec_hostingProvider :: bool
  sec_deviceFingerprint :: string

record Network =
  nw_isp :: string
  nw_organization :: string
  nw_asn :: string
  nw_reverse :: string
  nw_connectionType :: string

record Location =
  loc_country :: string
  loc_countryCode :: string
  loc_region :: string
  loc_city :: string
  loc_zip :: string
  loc_lat :: jsnum
  loc_lon :: jsnum
  loc_timezone :: jsval

record TrackPayload =
  tp_dbSaved :: bool
  tp_visitorInfo :: VisitorInfo
  tp_security :: Security
  tp_network :: Network
  tp_location :: Location

text \<open>The response: the success payload with status 200, or the error envelope with
  status 500. \<open>Untyped\<close> stands for the one kind of run the model does not follow: a
  geolocation provider answered, and the record its transform built does not have the
  type \<open>GeoLocationData\<close> (TypeScript does not check this at run time). It arises on
  no run in which every provider fails or the client IP is local.\<close>

datatype track_response = Tracked TrackPayload | TrackingFailed | Untyped

text \<open>The test for a local address.\<close>

definition isLocalIP :: "string \<Rightarrow> bool" where
  "isLocalIP ip =
     (ip = ''::1'' \<or> ip = ''127.0.0.1'' \<or> startsWith ip ''192.168.''
      \<or> startsWith ip ''10.'' \<or> startsWith ip ''172.'')"

definition ipifyUrl :: string where
  "ipifyUrl = ''https://api.ipify.org?format=json''"

text \<open>The probe for the public address: the effective IP after the inner \<open>try\<close>. Every
  failure leaves the IP as it was; a body that parses gives its \<open>ip\<close>, whatever JSON
  value that is (\<open>undefined\<close> when there is none); reading it off \<open>null\<close> throws, which
  the inner \<open>catch\<close> takes.\<close>

definition probePublicIP :: "network \<Rightarrow> string \<Rightarrow> jsval" where
  "probePublicIP net ip =
     (case net ipifyUrl of
        Timeout \<Rightarrow> JString ip
      | NetworkError \<Rightarrow> JString ip
      | Response status statusText body \<Rightarrow>
          if ok status
          then (case body of
                  None \<Rightarrow> JString ip
                | Some publicIPData \<Rightarrow>
                    if nullish publicIPData then JString ip
                    else getField publicIPData ''ip'')
          else JString ip)"

text \<open>The call \<open>fetchGeoLocationWithFallback(effectiveIP, isLocalhost)\<close>. The effective IP
  is a string unless the echo service answered with another value, and then
  \<open>isLocalhost\<close> is true: the resolver first builds the three URLs with template
  literals, which throws when the value does not convert, and then returns the simulated
  record without a call.\<close>

definition callResolver ::
    "(string \<Rightarrow> jsnum) \<Rightarrow> network \<Rightarrow> jsval \<Rightarrow> bool \<Rightarrow> (error + jsval) \<times> string list" where
  "callResolver Number net effectiveIP isLocalhost =
     (case effectiveIP of
        JString s \<Rightarrow> fetchGeoLocationWithFallback Number net s isLocalhost
      | v \<Rightarrow> if templateThrows v then (Inl TypeError, []) else (Inr (localhostGeo v), []))"

text \<open>The static record the handler substitutes when the resolver throws.\<close>

definition fallbackGeo :: "jsval \<Rightarrow> bool \<Rightarrow> jsval \<Rightarrow> GeoLocationData" where
  "fallbackGeo effectiveIP isLocalhost clientData =
     \<lparr>geo_query = effectiveIP,
      geo_status = ''success'',
      geo_country = (if isLocalhost then ''United Kingdom'' else ''Unknown''),
      geo_countryCode = (if isLocalhost then ''GB'' else ''XX''),
      geo_region = (if isLocalhost then ''ENG'' else ''XX''),
      geo_regionName = (if isLocalhost then ''England'' else ''Unknown''),
      geo_city = (if isLocalhost then ''London'' else ''Unknown''),
      geo_zip = (if isLocalhost then ''SW1A 1AA'' else ''Unknown''),
      geo_lat = (if isLocalhost then Num 51.5074 else Num 0),
      geo_lon = (if isLocalhost then Num (- 0.1278) else Num 0),
      geo_timezone = jsOr (getField clientData ''timezone'') (JString ''UTC''),
      geo_isp = (if isLocalhost then ''Local Development'' else ''Unknown ISP''),
      geo_org = (if isLocalhost then ''Localhost'' else ''Unknown Organization''),
      geo_as = (if isLocalhost then ''AS0 Local Network'' else ''Unknown''),
      geo_reverse = (if isLocalhost then ''localhost'' else ''Unknown''),
      geo_mobile = False,
      geo_proxy = False,
      geo_hosting = isLocalhost,
      geo_threat = None\<rparr>"

text \<open>The view of a JSON value at the type \<open>GeoLocationData\<close>: every declared field
  present with its declared type, \<open>threat\<close> absent or a string, \<open>query\<close> and
  \<open>timezone\<close> as they are.\<close>

definition strField :: "jsval \<Rightarrow> string \<Rightarrow> string option" where
  "strField v name = (case getField v name of JString s \<Rightarrow> Some s | _ \<Rightarrow> None)"

definition numField :: "jsval \<Rightarrow> string \<Rightarrow> jsnum option" where
  "numField v name = (case getField v name of JNumber n \<Rightarrow> Some n | _ \<Rightarrow> None)"

definition boolField :: "jsval \<Rightarrow> string \<Rightarrow> bool option" where
  "boolField v name = (case getField v name of JBool b \<Rightarrow> Some b | _ \<Rightarrow> None)"

definition optStrField :: "jsval \<Rightarrow> string \<Rightarrow> string option option" where
  "optStrField v name =
     (case getField v name of
        JString s \<Rightarrow> Some (Some s)
      | JUndefined \<Rightarrow> Some None
      | _ \<Rightarrow> None)"

definition asGeo :: "jsval \<Rightarrow> GeoLocationData option" where
  "asGeo v =
     Option.bind (strField v ''status'') (\<lambda>status.
     Option.bind (strField v ''country'') (\<lambda>country.
     Option.bind (strField v ''countryCode'') (\<lambda>countryCode.
     Option.bind (strField v ''region'') (\<lambda>region.
     Option.bind (strField v ''regionName'') (\<lambda>regionName.
     Option.bind (strField v ''city'') (\<lambda>city.
     Option.bind (strField v ''zip'') (\<lambda>zip.
     Option.bind (numField v ''lat'') (\<lambda>lat.
     Option.bind (numField v ''lon'') (\<lambda>lon.
     Option.bind (strField v ''isp'') (\<lambda>isp.
     Option.bind (strField v ''org'') (\<lambda>org.
     Option.bind (strField v ''as'') (\<lambda>as.
     Option.bind (strField v ''reverse'') (\<lambda>reverse.
     Option.bind (boolField v ''mobile'') (\<lambda>mobile.
     Option.bind (boolField v ''proxy'') (\<lambda>proxy.
     Option.bind (boolField v ''hosting'') (\<lambda>hosting.
     Option.bind (optStrField v ''threat'') (\<lambda>threat.
       Some \<lparr>geo_query = getField v ''query'', geo_status = status, geo_country = country,
             geo_countryCode = countryCode, geo_region = region,
             geo_regionName = regionName, geo_city = city, geo_zip = zip,
             geo_lat = lat, geo_lon = lon, geo_timezone = getField v ''timezone'',
             geo_isp = isp, geo_org = org, geo_as = as, geo_reverse = reverse,
             geo_mobile = mobile, geo_proxy = proxy, geo_hosting = hosting,
             geo_threat = threat\<rparr>)))))))))))))))))"

text \<open>\<open>name || 'Unknown'\<close> on an optional string of the parser's result.\<close>

definition orUnknown :: "string option \<Rightarrow> string" where
  "orUnknown v = (if truthyStr v then the v else ''Unknown'')"

text \<open>The device type.\<close>

definition deviceTypeOf :: "UAResult \<Rightarrow> GeoLocationData \<Rightarrow> string \<Rightarrow> string" where
  "deviceTypeOf uaResult geoData userAgent =
     (if truthyStr (ua_deviceType uaResult)
      then (if ua_deviceType uaResult = Some ''mobile'' then ''Mobile''
            else if ua_deviceType uaResult = Some ''tablet'' then ''Tablet''
            else if ua_deviceType uaResult = Some ''smarttv'' then ''Smart TV''
            else ''Desktop'')
      else if geo_mobile geoData \<or> includesStr userAgent ''Mobile'' then ''Mobile''
      else if includesStr userAgent ''Tablet'' \<or> includesStr userAgent ''iPad'' then ''Tablet''
      else ''Desktop'')"

text \<open>The handler from the parsed user agent to the response payload, the user agent
  of the body and the geolocation record in hand: classification, the insert, whose
  failure is caught, and the payload.\<close>

definition respond ::
    "runtime \<Rightarrow> world \<Rightarrow> string \<Rightarrow> headers \<Rightarrow> string \<Rightarrow> GeoLocationData \<Rightarrow> TrackPayload" where
  "respond rt w ip requestHeaders userAgent geoData =
     (let uaResult = rt_UAParser rt userAgent;
          deviceType = deviceTypeOf uaResult geoData userAgent;
          browserName = orUnknown (ua_browserName uaResult);
          browserVersion = orUnknown (ua_browserVersion uaResult);
          browser = browserName @ '' '' @ browserVersion;
          osName = orUnknown (ua_osName uaResult);
          osVersion = orUnknown (ua_osVersion uaResult);
          os = osName @ '' '' @ osVersion;
          isVPN = detectVPN geoData userAgent;
          isProxy = (geo_proxy geoData \<or> isVPN);
          threatLevel = getThreatLevel geoData isVPN userAgent;
          connectionType = getConnectionType userAgent geoData;
          deviceFingerprint = generateDeviceFingerprint userAgent requestHeaders;
          visitorInfo =
            \<lparr>vi_ip = ip,
             vi_country = geo_country geoData,
             vi_region = geo_regionName geoData,
             vi_city = geo_city geoData,
             vi_latitude = geo_lat geoData,
             vi_longitude = geo_lon geoData,
             vi_timezone = geo_timezone geoData,
             vi_browser = browser,
             vi_os = os,
             vi_device = deviceType,
             vi_userAgent = userAgent,
             vi_isp = geo_isp geoData,
             vi_connection = connectionType,
             vi_threat = threatLevel,
             vi_vpn = isVPN,
             vi_proxy = isProxy\<rparr>;
          dbSaveSuccess =
            w_dbCreate w
              \<lparr>vc_ip = vi_ip visitorInfo,
               vc_country = vi_country visitorInfo,
               vc_region = vi_region visitorInfo,
               vc_city = vi_city visitorInfo,
               vc_latitude = vi_latitude visitorInfo,
               vc_longitude = vi_longitude visitorInfo,
               vc_timezone = vi_timezone visitorInfo,
               vc_browser = vi_browser visitorInfo,
               vc_os = vi_os visitorInfo,
               vc_device = vi_device visitorInfo,
               vc_userAgent = vi_userAgent visitorInfo\<rparr>
      in \<lparr>tp_dbSaved = dbSaveSuccess,
          tp_visitorInfo = visitorInfo,
          tp_security =
            \<lparr>sec_threatLevel = threatLevel,
             sec_vpnDetected = isVPN,
             sec_proxyDetected = isProxy,
             sec_hostingProvider = geo_hosting geoData,
             sec_deviceFingerprint = deviceFingerprint\<rparr>,
          tp_network =
            \<lparr>nw_isp = geo_isp geoData,
             nw_organization = geo_org geoData,
             nw_asn = geo_as geoData,
             nw_reverse = geo_reverse geoData,
             nw_connectionType = connectionType\<rparr>,
          tp_location =
            \<lparr>loc_country = geo_country geoData,
             loc_countryCode = geo_countryCode geoData,
             loc_region = geo_regionName geoData,
             loc_city = geo_city geoData,
             loc_zip = geo_zip geoData,
             loc_lat = geo_lat geoData,
             loc_lon = geo_lon geoData,
             loc_timezone = geo_timezone geoData\<rparr>\<rparr>)"

text \<open>The geolocation record the handler works with: the resolver's, or the static
  record when the resolver throws.\<close>

definition geoDataOf ::
    "error + jsval \<Rightarrow> jsval \<Rightarrow> bool \<Rightarrow> jsval \<Rightarrow> GeoLocationData option" where
  "geoDataOf resolved effectiveIP isLocalhost clientData =
     (case resolved of
        Inr v \<Rightarrow> asGeo v
      | Inl e \<Rightarrow> Some (fallbackGeo effectiveIP isLocalhost clientData))"

text \<open>\<open>POST\<close> of the tracking route. A body that is not JSON makes \<open>request.json()\<close>
  throw before any call; a body without a string \<open>userAgent\<close> makes the handler throw
  after the calls and before the insert; a body whose entries do not format makes it
  throw after the insert. The outer \<open>catch\<close> answers each with status 500. The second
  component lists the URLs fetched, in the order of the calls.\<close>

definition POST :: "runtime \<Rightarrow> world \<Rightarrow> request \<Rightarrow> track_response \<times> string list" where
  "POST rt w request =
     (case req_body request of
        None \<Rightarrow> (TrackingFailed, [])
      | Some clientData \<Rightarrow>
          (let ip = extractClientIP (req_headers request);
               requestHeaders = req_headers request;
               isLocalhost = isLocalIP ip;
               probeCalls = (if isLocalhost then [ipifyUrl] else []);
               effectiveIP = (if isLocalhost then probePublicIP (w_net w) ip else JString ip)
           in case callResolver (rt_Number rt) (w_net w) effectiveIP isLocalhost of
                (resolved, geoCalls) \<Rightarrow>
                  (case clientUserAgent clientData of
                     None \<Rightarrow> (TrackingFailed, probeCalls @ geoCalls)
                   | Some userAgent \<Rightarrow>
                       (case geoDataOf resolved effectiveIP isLocalhost clientData of
                          None \<Rightarrow> (Untyped, probeCalls @ geoCalls)
                        | Some geoData \<Rightarrow>
                            if echoThrows clientData
                            then (TrackingFailed, probeCalls @ geoCalls)
                            else (Tracked (respond rt w ip requestHeaders userAgent geoData),
                                  probeCalls @ geoCalls)))))"

section \<open>The admin dashboard\<close>

text \<open>A row of the visitor table. Instants are milliseconds since the epoch.\<close>

record Visitor =
  v_id :: string
  v_ip :: string
  v_country :: string
  v_region :: string
  v_city :: string
  v_latitude :: real
  v_longitude :: real
  v_timezone :: string
  v_browser :: string
  v_os :: string
  v_device :: string
  v_userAgent :: string
  v_visitedAt :: int

text \<open>The queries of the handler. \<open>orderBy: {visitedAt: 'desc'}\<close>: the order among rows
  of equal time is the database's own; the model keeps the order of the table there.
  \<open>groupBy\<close> with \<open>_count\<close>: one group for each value, with the number of its rows;
  the order of the groups is the database's own too, and the model lists them in the
  order of the table, so the order of groups of equal count in a top list is not the
  database's.\<close>

definition orderByDesc :: "('a \<Rightarrow> int) \<Rightarrow> 'a list \<Rightarrow> 'a list" where
  "orderByDesc key rows = sort_key (\<lambda>r. - key r) rows"

definition groupByCount :: "('a \<Rightarrow> 'k) \<Rightarrow> 'a list \<Rightarrow> ('k \<times> nat) list" where
  "groupByCount key rows =
     map (\<lambda>k. (k, length (filter (\<lambda>r. key r = k) rows))) (remdups (map key rows))"

text \<open>\<open>groups.sort((a, b) => b._count - a._count).slice(0, 10)\<close>, the groups mapped to
  value and count. The sort of JavaScript is stable.\<close>

definition top10 :: "('k \<times> nat) list \<Rightarrow> ('k \<times> nat) list" where
  "top10 groups = take 10 (sort_key (\<lambda>g. - int (snd g)) groups)"

text \<open>The instants and the formatting the handler obtains from the clock and the number
  library: \<open>clk_hour i\<close> is the start of the hour \<open>i\<close> hours ago, \<open>clk_nextHour i\<close> the
  start of the hour after it, \<open>clk_hourLabel i\<close> its hour of the day.\<close>

record clock =
  clk_twentyFourHoursAgo :: int
  clk_hour :: "nat \<Rightarrow> int"
  clk_nextHour :: "nat \<Rightarrow> int"
  clk_hourLabel :: "nat \<Rightarrow> nat"
  clk_hourIso :: "nat \<Rightarrow> string"
  clk_today :: int
  clk_tomorrow :: int
  clk_yesterday :: int
  clk_nowIso :: string
  clk_toFixed1 :: "real \<Rightarrow> string"

record HourlyEntry =
  he_hour :: nat
  he_count :: nat
  he_timestamp :: string

record VisitorLocation =
  vl_latitude :: real
  vl_longitude :: real
  vl_city :: string
  vl_country :: string
  vl_visitedAt :: int

record DailyStats =
  ds_today :: nat
  ds_yesterday :: nat
  ds_growthRate :: string

record DashboardPayload =
  dp_totalVisitors :: nat
  dp_uniqueCountries :: nat
  dp_uniqueDevices :: nat
  dp_recentVisitors :: "Visitor list"
  dp_topCountries :: "(string \<times> nat) list"
  dp_topBrowsers :: "(string \<times> nat) list"
  dp_topDevices :: "(string \<times> nat) list"
  dp_topOS :: "(string \<times> nat) list"
  dp_hourlyData :: "HourlyEntry list"
  dp_visitorLocations :: "VisitorLocation list"
  dp_repeatVisitors :: "(string \<times> nat) list"
  dp_dailyStats :: DailyStats
  dp_lastUpdated :: string

text \<open>The response of the dashboard: the payload, the 404 envelope with its error text
  and time stamp, or the 500 envelope.\<close>

datatype dashboard_response =
    Dashboard DashboardPayload
  | NotFound string string
  | DashboardFailed

definition countBetween :: "int \<Rightarrow> int \<Rightarrow> Visitor list \<Rightarrow> nat" where
  "countBetween lo hi rows = length (filter (\<lambda>v. lo \<le> v_visitedAt v \<and> v_visitedAt v < hi) rows)"

definition recentVisitorsOf :: "clock \<Rightarrow> Visitor list \<Rightarrow> Visitor list" where
  "recentVisitorsOf clk rows =
     take 20 (orderByDesc v_visitedAt
       (filter (\<lambda>v. clk_twentyFourHoursAgo clk \<le> v_visitedAt v) rows))"

text \<open>The loop \<open>for (let i = 23; i >= 0; i--)\<close>.\<close>

definition hourlyDataOf :: "clock \<Rightarrow> Visitor list \<Rightarrow> HourlyEntry list" where
  "hourlyDataOf clk rows =
     map (\<lambda>i. \<lparr>he_hour = clk_hourLabel clk i,
                he_count = countBetween (clk_hour clk i) (clk_nextHour clk i) rows,
                he_timestamp = clk_hourIso clk i\<rparr>)
       (rev [0 ..< 24])"

definition visitorLocationsOf :: "Visitor list \<Rightarrow> VisitorLocation list" where
  "visitorLocationsOf rows =
     map (\<lambda>v. \<lparr>vl_latitude = v_latitude v, vl_longitude = v_longitude v, vl_city = v_city v,
                vl_country = v_country v, vl_visitedAt = v_visitedAt v\<rparr>)
       (take 100 (orderByDesc v_visitedAt
          (filter (\<lambda>v. v_latitude v \<noteq> 0 \<and> v_longitude v \<noteq> 0) rows)))"

definition ispDataOf :: "Visitor list \<Rightarrow> (string \<times> int) list" where
  "ispDataOf rows = map (\<lambda>v. (v_ip v, v_visitedAt v)) (take 50 (orderByDesc v_visitedAt rows))"

definition repeatVisitorsOf :: "Visitor list \<Rightarrow> (string \<times> nat) list" where
  "repeatVisitorsOf rows =
     (let allVisitorsByIP = sort_key (\<lambda>g. - int (snd g)) (groupByCount v_ip rows)
      in take 10 (filter (\<lambda>item. snd item > 1) allVisitorsByIP))"

definition dailyStatsOf :: "clock \<Rightarrow> Visitor list \<Rightarrow> DailyStats" where
  "dailyStatsOf clk rows =
     (let todayVisitors = countBetween (clk_today clk) (clk_tomorrow clk) rows;
          yesterdayVisitors = countBetween (clk_yesterday clk) (clk_today clk) rows;
          growthRate =
            (if yesterdayVisitors > 0
             then clk_toFixed1 clk
                    ((real todayVisitors - real yesterdayVisitors) / real yesterdayVisitors * 100)
             else ''0'')
      in \<lparr>ds_today = todayVisitors, ds_yesterday = yesterdayVisitors,
          ds_growthRate = growthRate @ ''%''\<rparr>)"

text \<open>\<open>GET\<close> of the dashboard route, on the table, or on \<open>None\<close> when the database
  cannot be reached and the first query throws.\<close>

definition GET :: "clock \<Rightarrow> Visitor list option \<Rightarrow> dashboard_response" where
  "GET clk db =
     (case db of
        None \<Rightarrow> DashboardFailed
      | Some rows \<Rightarrow>
          (let totalVisitors = length rows;
               uniqueCountries = groupByCount v_country rows;
               uniqueDevices = groupByCount v_device rows;
               recentVisitors = recentVisitorsOf clk rows;
               topCountries = top10 uniqueCountries;
               browserStats = groupByCount v_browser rows;
               topBrowsers = top10 browserStats;
               topDevices = top10 uniqueDevices;
               hourlyData = hourlyDataOf clk rows;
               visitorLocations = visitorLocationsOf rows;
               osStats = groupByCount v_os rows;
               topOS = top10 osStats;
               ispData = ispDataOf rows
           in if length ispData = 0
              then NotFound ''No ISP data available'' (clk_nowIso clk)
              else Dashboard
                \<lparr>dp_totalVisitors = totalVisitors,
                 dp_uniqueCountries = length uniqueCountries,
                 dp_uniqueDevices = length uniqueDevices,
                 dp_recentVisitors = recentVisitors,
                 dp_topCountries = topCountries,
                 dp_topBrowsers = topBrowsers,
                 dp_topDevices = topDevices,
                 dp_topOS = topOS,
                 dp_hourlyData = hourlyData,
                 dp_visitorLocations = visitorLocations,
                 dp_repeatVisitors = repeatVisitorsOf rows,
                 dp_dailyStats = dailyStatsOf clk rows,
                 dp_lastUpdated = clk_nowIso clk\<rparr>))"

section \<open>Notions of the statements and data for the examples\<close>

text \<open>The polynomial of the specification's wording: the character codes as the
  coefficients of a polynomial in 31, the first character with the highest power.\<close>

definition poly31 :: "string \<Rightarrow> int" where
  "poly31 s = horner_sum of_char 31 (rev s)"

text \<open>A record for the examples.\<close>

definition ashburnGeo :: GeoLocationData where
  "ashburnGeo =
     \<lparr>geo_query = JString ''8.8.8.8'', geo_status = ''success'', geo_country = ''United States'',
      geo_countryCode = ''US'', geo_region = ''VA'', geo_regionName = ''Virginia'',
      geo_city = ''Ashburn'', geo_zip = ''20149'', geo_lat = Num 39.03, geo_lon = Num (- 77.5),
      geo_timezone = JString ''America/New_York'', geo_isp = ''Comcast Cable'', geo_org = ''Amazon'',
      geo_as = ''AS14618'', geo_reverse = '''', geo_mobile = False, geo_proxy = False,
      geo_hosting = False, geo_threat = None\<rparr>"

text \<open>A provider attempt fails when the \<open>try\<close> block ends in the \<open>catch\<close>.\<close>

definition attemptFails :: "network \<Rightarrow> api \<Rightarrow> bool" where
  "attemptFails net a = isl (tryApi net a)"

text \<open>The probe for the public address fails: no response (the abort signal fired, or
  the call failed otherwise), a status outside 200..299, a body that is not JSON, or the
  body \<open>null\<close>, whose \<open>ip\<close> cannot be read.\<close>

definition probeFails :: "network \<Rightarrow> bool" where
  "probeFails net =
     (case net ipifyUrl of
        Timeout \<Rightarrow> True
      | NetworkError \<Rightarrow> True
      | Response status statusText body \<Rightarrow>
          \<not> ok status \<or> (case body of None \<Rightarrow> True | Some publicIPData \<Rightarrow> nullish publicIPData))"

text \<open>The fields every \<open>GeoLocationData\<close> declares as required, and a JSON value that
  has them all.\<close>

definition requiredFields :: "string list" where
  "requiredFields =
     [''query'', ''status'', ''country'', ''countryCode'', ''region'', ''regionName'', ''city'',
      ''zip'', ''lat'', ''lon'', ''timezone'', ''isp'', ''org'', ''as'', ''reverse'', ''mobile'',
      ''proxy'', ''hosting'']"

definition populated :: "jsval \<Rightarrow> bool" where
  "populated v = list_all (\<lambda>name. getField v name \<noteq> JUndefined) requiredFields"

text \<open>The private and loopback addresses of the statements' wording. An IPv4 address is
  four decimal numbers 0..255, written without leading zeros and separated by dots. It
  is private in the blocks 10.0.0.0/8, 172.16.0.0/12 and 192.168.0.0/16, and a loopback
  address in the block 127.0.0.0/8; the loopback address of IPv6 is \<open>::1\<close>.\<close>

definition digit10 :: "nat \<Rightarrow> char" where
  "digit10 d = char_of (48 + d)"

definition showOctet :: "nat \<Rightarrow> string" where
  "showOctet n =
     (if n < 10 then [digit10 n]
      else if n < 100 then [digit10 (n div 10), digit10 (n mod 10)]
      else [digit10 (n div 100), digit10 (n div 10 mod 10), digit10 (n mod 10)])"

definition octetValue :: "string \<Rightarrow> nat option" where
  "octetValue s = find (\<lambda>n. showOctet n = s) [0..<256]"

definition parseIPv4 :: "string \<Rightarrow> (nat \<times> nat \<times> nat \<times> nat) option" where
  "parseIPv4 s =
     (case split CHR ''.'' s of
        [p1, p2, p3, p4] \<Rightarrow>
          (case (octetValue p1, octetValue p2, octetValue p3, octetValue p4) of
             (Some a, Some b, Some c, Some d) \<Rightarrow> Some (a, b, c, d)
           | _ \<Rightarrow> None)
      | _ \<Rightarrow> None)"

definition isPrivateAddress :: "string \<Rightarrow> bool" where
  "isPrivateAddress ip =
     (case parseIPv4 ip of
        Some (a, b, c, d) \<Rightarrow>
          a = 10 \<or> (a = 172 \<and> 16 \<le> b \<and> b \<le> 31) \<or> (a = 192 \<and> b = 168)
      | None \<Rightarrow> False)"

definition isLoopbackAddress :: "string \<Rightarrow> bool" where
  "isLoopbackAddress ip =
     (ip = ''::1'' \<or> (case parseIPv4 ip of Some (a, b, c, d) \<Rightarrow> a = 127 | None \<Rightarrow> False))"

text \<open>Worlds, a runtime and requests for the examples: a network where the first
  provider times out and the second answers, one where every call times out, one where
  every call is answered with a bare success flag, a database that refuses every insert;
  a request from a public address, one without forwarding headers, one from the loopback
  address 127.0.0.2, and two whose body is the empty object.\<close>

definition exampleBody :: jsval where
  "exampleBody =
     JObject
       [(''ip'', JString ''8.8.8.8''),
        (''city'', JString ''Mountain View''),
        (''region'', JString ''California''),
        (''region_code'', JString ''CA''),
        (''country_name'', JString ''United States''),
        (''country_code'', JString ''US''),
        (''postal'', JString ''94043''),
        (''latitude'', JNumber (Num 37.42)),
        (''longitude'', JNumber (Num (- 122.08))),
        (''timezone'', JString ''America/Los_Angeles''),
        (''asn'', JString ''AS15169''),
        (''org'', JString ''Google LLC'')]"

definition secondAnswers :: network where
  "secondAnswers url =
     (if url = ''https://ipapi.co/8.8.8.8/json/'' then Response 200 ''OK'' (Some exampleBody)
      else Timeout)"

definition allTimeout :: network where
  "allTimeout url = Timeout"

definition exampleRuntime :: runtime where
  "exampleRuntime =
     \<lparr>rt_Number = (\<lambda>s. NaN),
      rt_UAParser = (\<lambda>s. \<lparr>ua_deviceType = None, ua_browserName = None,
                           ua_browserVersion = None, ua_osName = None, ua_osVersion = None\<rparr>)\<rparr>"

definition downWorld :: world where
  "downWorld = \<lparr>w_net = allTimeout, w_dbCreate = (\<lambda>row. False)\<rparr>"

definition bareSuccess :: jsval where
  "bareSuccess = JObject [(''status'', JString ''success'')]"

definition allBare :: network where
  "allBare url = Response 200 ''OK'' (Some bareSuccess)"

definition exampleClient :: jsval where
  "exampleClient =
     JObject
       [(''userAgent'', JString ''Mozilla/5.0 (X11; Linux)''),
        (''timezone'', JString ''Europe/Paris'')]"

definition publicRequest :: request where
  "publicRequest =
     \<lparr>req_headers = [''x-forwarded-for'' \<mapsto> ''8.8.8.8, 10.0.0.1''],
      req_body = Some exampleClient\<rparr>"

definition localRequest :: request where
  "localRequest = \<lparr>req_headers = Map.empty, req_body = Some exampleClient\<rparr>"

definition loopbackRequest :: request where
  "loopbackRequest =
     \<lparr>req_headers = [''x-forwarded-for'' \<mapsto> ''127.0.0.2''], req_body = Some exampleClient\<rparr>"

definition emptyBodyRequest :: request where
  "emptyBodyRequest =
     \<lparr>req_headers = [''x-forwarded-for'' \<mapsto> ''8.8.8.8''], req_body = Some (JObject [])\<rparr>"

definition localEmptyBodyRequest :: request where
  "localEmptyBodyRequest = \<lparr>req_headers = Map.empty, req_body = Some (JObject [])\<rparr>"

text \<open>The selection of the mapping list and its filter, named for the statements.\<close>

definition selectLocation :: "Visitor \<Rightarrow> VisitorLocation" where
  "selectLocation v =
     \<lparr>vl_latitude = v_latitude v, vl_longitude = v_longitude v, vl_city = v_city v,
      vl_country = v_country v, vl_visitedAt = v_visitedAt v\<rparr>"

definition located :: "Visitor \<Rightarrow> bool" where
  "located v = (v_latitude v \<noteq> 0 \<and> v_longitude v \<noteq> 0)"

text \<open>A clock and a table for the examples: a visitor in Paris, a later one stored with
  the defaulted coordinates, and a still later one in London.\<close>

definition exampleClock :: clock where
  "exampleClock =
     \<lparr>clk_twentyFourHoursAgo = 1699913600000,
      clk_hour = (\<lambda>i. 1699999200000 - int i * 3600000),
      clk_nextHour = (\<lambda>i. 1700002800000 - int i * 3600000),
      clk_hourLabel = (\<lambda>i. (22 + 24 - i) mod 24),
      clk_hourIso = (\<lambda>i. ''hour''),
      clk_today = 1699920000000,
      clk_tomorrow = 1700006400000,
      clk_yesterday = 1699833600000,
      clk_nowIso = ''2023-11-14T22:13:20.000Z'',
      clk_toFixed1 = (\<lambda>r. ''0.0'')\<rparr>"

definition parisVisitor :: Visitor where
  "parisVisitor =
     \<lparr>v_id = ''a1'', v_ip = ''81.2.69.142'', v_country = ''France'', v_region = ''IDF'',
      v_city = ''Paris'', v_latitude = 48.8566, v_longitude = 2.3522,
      v_timezone = ''Europe/Paris'', v_browser = ''Firefox 119'', v_os = ''Linux x86_64'',
      v_device = ''Desktop'', v_userAgent = ''Mozilla/5.0 (X11; Linux)'',
      v_visitedAt = 1699990000000\<rparr>"

definition unknownVisitor :: Visitor where
  "unknownVisitor =
     \<lparr>v_id = ''a2'', v_ip = ''8.8.8.8'', v_country = ''Unknown'', v_region = ''Unknown'',
      v_city = ''Unknown'', v_latitude = 0, v_longitude = 0,
      v_timezone = ''UTC'', v_browser = ''Unknown Unknown'', v_os = ''Unknown Unknown'',
      v_device = ''Desktop'', v_userAgent = ''curl/8.4'',
      v_visitedAt = 1699995000000\<rparr>"

definition londonVisitor :: Visitor where
  "londonVisitor =
     \<lparr>v_id = ''a3'', v_ip = ''127.0.0.1'', v_country = ''United Kingdom'', v_region = ''England'',
      v_city = ''London'', v_latitude = 51.5074, v_longitude = - 0.1278,
      v_timezone = ''Europe/London'', v_browser = ''Chrome 119'', v_os = ''Windows 10'',
      v_device = ''Desktop'', v_userAgent = ''Mozilla/5.0 (Windows NT 10.0)'',
      v_visitedAt = 1699999000000\<rparr>"

definition exampleTable :: "Visitor list" where
  "exampleTable = [parisVisitor, unknownVisitor, londonVisitor]"

section \<open>Properties of the string operations\<close>

lemma includesStr_sublist: "includesStr s t \<longleftrightarrow> sublist t s"
  by (induction s) (auto simp: sublist_Cons_right)

lemma split_not_Nil: "split sep s \<noteq> []"
  by (induction s) (auto split: list.splits)


section \<open>The IP resolver follows the priority list\<close>









text \<open>The local helper of the route \<open>/api/track\<close> reads \<open>x-real-ip\<close> before \<open>x-forwarded-for\<close>: on the
  headers of the example above it answers with the other address.\<close>

lemma getRealIP_prefers_real_ip:
  "getRealIP [''x-forwarded-for'' \<mapsto> ''8.8.8.8, 10.0.0.1'', ''x-real-ip'' \<mapsto> ''1.1.1.1'']
     = ''1.1.1.1''"
  by (simp add: getRealIP_def truthyStr_def)

section \<open>The heuristic classifier computes what the specification says\<close>

lemma lower_Amazon: "toLowerCase ''Amazon'' = ''amazon''"
  by code_simp

text \<open>
  Claim C6. For every geolocation record and user agent, \<open>detectVPN\<close> is true exactly
  when the lower-cased ISP or organization contains one of the VPN keywords, or one of
  the hosting-provider names, or the proxy or the hosting flag of the record is set. With
  the organization \<open>Amazon\<close> it is true although no VPN keyword occurs in the
  organization.
\<close>

theorem detectVPN_iff:
  "(detectVPN g ua \<longleftrightarrow>
      (\<exists>k \<in> set vpnIndicators.
          sublist k (toLowerCase (geo_isp g)) \<or> sublist k (toLowerCase (geo_org g)))
      \<or> (\<exists>p \<in> set suspiciousIsps.
          sublist p (toLowerCase (geo_isp g)) \<or> sublist p (toLowerCase (geo_org g)))
      \<or> geo_proxy g \<or> geo_hosting g)
   \<and> (geo_org g = ''Amazon'' \<longrightarrow>
        detectVPN g ua \<and> \<not> (\<exists>k \<in> set vpnIndicators. sublist k (toLowerCase (geo_org g))))"
proof (intro conjI impI)
  show "detectVPN g ua \<longleftrightarrow>
      (\<exists>k \<in> set vpnIndicators.
          sublist k (toLowerCase (geo_isp g)) \<or> sublist k (toLowerCase (geo_org g)))
      \<or> (\<exists>p \<in> set suspiciousIsps.
          sublist p (toLowerCase (geo_isp g)) \<or> sublist p (toLowerCase (geo_org g)))
      \<or> geo_proxy g \<or> geo_hosting g"
    unfolding detectVPN_def Let_def list_ex_iff includesStr_sublist by blast
next
  assume a: "geo_org g = ''Amazon''"
  have "includesStr (toLowerCase (geo_org g)) ''amazon''"
    by (simp add: a lower_Amazon)
  then show "detectVPN g ua"
    by (simp add: detectVPN_def Let_def suspiciousIsps_def)
next
  assume a: "geo_org g = ''Amazon''"
  have "\<not> list_ex (includesStr ''amazon'') vpnIndicators"
    by (simp add: vpnIndicators_def)
  then show "\<not> (\<exists>k \<in> set vpnIndicators. sublist k (toLowerCase (geo_org g)))"
    by (simp add: a lower_Amazon list_ex_iff includesStr_sublist)
qed

theorem detectVPN_iff_witness:
  "geo_org ashburnGeo = ''Amazon'' \<and> detectVPN ashburnGeo ''Mozilla/5.0''
   \<and> \<not> (\<exists>k \<in> set vpnIndicators. sublist k (toLowerCase (geo_org ashburnGeo)))"
proof -
  have h: "geo_org ashburnGeo = ''Amazon''"
    by (simp add: ashburnGeo_def)
  from detectVPN_iff [of ashburnGeo "''Mozilla/5.0''"] h show ?thesis by blast
qed

text \<open>The local helper of the route \<open>/api/track\<close> has no list of hosting providers: the same record
  is not a VPN there.\<close>

lemma route_detectVPN_Amazon: "\<not> route_detectVPN ashburnGeo ''Mozilla/5.0''"
proof -
  have "toLowerCase ''Comcast Cable'' = ''comcast cable''"
    and "toLowerCase ''Mozilla/5.0'' = ''mozilla/5.0''"
    by code_simp+
  then show ?thesis
    by (simp add: route_detectVPN_def ashburnGeo_def lower_Amazon route_vpnIndicators_def)
qed

text \<open>
  Claim C5. For every geolocation record and user agent, the threat level is the threat
  value of the record whenever that value is present (a non-empty string) and not
  \<open>low\<close>, whatever the local signals are; otherwise it is \<open>medium\<close> when the VPN flag
  passed in, the proxy flag or the hosting flag is set or the lower-cased user agent
  contains one of the automation tokens; otherwise it is \<open>low\<close>.
\<close>

theorem getThreatLevel_precedence:
  "(\<forall>t. geo_threat g = Some t \<and> t \<noteq> [] \<and> t \<noteq> ''low'' \<longrightarrow> getThreatLevel g isVPN ua = t)
   \<and> (geo_threat g = None \<or> geo_threat g = Some [] \<or> geo_threat g = Some ''low'' \<longrightarrow>
        getThreatLevel g isVPN ua =
          (if isVPN \<or> geo_proxy g \<or> geo_hosting g
               \<or> (\<exists>p \<in> set suspiciousUAPatterns. sublist p (toLowerCase ua))
           then ''medium'' else ''low''))"
  unfolding getThreatLevel_def Let_def list_ex_iff includesStr_sublist truthyStr_def
  by (auto split: option.splits)

theorem getThreatLevel_precedence_witness:
  "geo_threat (ashburnGeo\<lparr>geo_threat := Some ''high''\<rparr>) = Some ''high''
   \<and> detectVPN (ashburnGeo\<lparr>geo_threat := Some ''high''\<rparr>) ''curl/8.0''
   \<and> getThreatLevel (ashburnGeo\<lparr>geo_threat := Some ''high''\<rparr>)
        (detectVPN (ashburnGeo\<lparr>geo_threat := Some ''high''\<rparr>) ''curl/8.0'') ''curl/8.0'' = ''high''
   \<and> getThreatLevel ashburnGeo (detectVPN ashburnGeo ''curl/8.0'') ''curl/8.0'' = ''medium''"
proof -
  let ?g = "ashburnGeo\<lparr>geo_threat := Some ''high''\<rparr>"
  have t: "geo_threat ?g = Some ''high'' \<and> ''high'' \<noteq> [] \<and> ''high'' \<noteq> ''low''"
    by simp
  have o: "geo_org ?g = ''Amazon''" "geo_org ashburnGeo = ''Amazon''"
    by (simp_all add: ashburnGeo_def)
  have v: "detectVPN ?g ''curl/8.0''" "detectVPN ashburnGeo ''curl/8.0''"
    using detectVPN_def o by (simp_all add: Let_def lower_Amazon suspiciousIsps_def)
  have n: "geo_threat ashburnGeo = None"
    by (simp add: ashburnGeo_def)
  from getThreatLevel_precedence [of ?g "detectVPN ?g ''curl/8.0''" "''curl/8.0''"] t
  have "getThreatLevel ?g (detectVPN ?g ''curl/8.0'') ''curl/8.0'' = ''high''"
    by blast
  moreover from getThreatLevel_precedence
                  [of ashburnGeo "detectVPN ashburnGeo ''curl/8.0''" "''curl/8.0''"] n v
  have "getThreatLevel ashburnGeo (detectVPN ashburnGeo ''curl/8.0'') ''curl/8.0'' = ''medium''"
    by simp
  ultimately show ?thesis using t v by simp
qed

text \<open>The local helper of the route \<open>/api/track\<close> never looks at the user agent.\<close>

lemma route_getThreatLevel_ignores_agent:
  "route_getThreatLevel (ashburnGeo\<lparr>geo_org := ''Comcast''\<rparr>) False = ''low''"
  by (simp add: route_getThreatLevel_def ashburnGeo_def truthyStr_def)

text \<open>
  Claim C8. For every user agent and geolocation record, the connection type is
  \<open>Mobile\<close> when the mobile flag of the record is set or the lower-cased user agent
  contains \<open>mobile\<close>; otherwise \<open>Tablet\<close> when it contains \<open>tablet\<close> or \<open>ipad\<close>;
  otherwise \<open>Smart TV\<close> when it contains \<open>smart-tv\<close> or \<open>tv\<close>; otherwise
  \<open>Gaming Console\<close> when it contains \<open>playstation\<close>, \<open>xbox\<close> or \<open>nintendo\<close>; otherwise
  \<open>Broadband\<close>.
\<close>

theorem getConnectionType_cases:
  "getConnectionType ua g =
     (if geo_mobile g \<or> sublist ''mobile'' (toLowerCase ua) then ''Mobile''
      else if sublist ''tablet'' (toLowerCase ua) \<or> sublist ''ipad'' (toLowerCase ua)
        then ''Tablet''
      else if sublist ''smart-tv'' (toLowerCase ua) \<or> sublist ''tv'' (toLowerCase ua)
        then ''Smart TV''
      else if sublist ''playstation'' (toLowerCase ua) \<or> sublist ''xbox'' (toLowerCase ua)
              \<or> sublist ''nintendo'' (toLowerCase ua)
        then ''Gaming Console''
      else ''Broadband'')"
  unfolding getConnectionType_def Let_def includesStr_sublist by simp

theorem getConnectionType_cases_witness:
  "getConnectionType ''Mozilla/5.0 (iPad; CPU OS 16_0)'' ashburnGeo = ''Tablet''
   \<and> getConnectionType ''Mozilla/5.0 (PlayStation 5)'' ashburnGeo = ''Gaming Console''
   \<and> getConnectionType ''Mozilla/5.0 (X11; Linux)'' ashburnGeo = ''Broadband''"
proof -
  have l: "toLowerCase ''Mozilla/5.0 (iPad; CPU OS 16_0)'' = ''mozilla/5.0 (ipad; cpu os 16_0)''"
    "toLowerCase ''Mozilla/5.0 (PlayStation 5)'' = ''mozilla/5.0 (playstation 5)''"
    "toLowerCase ''Mozilla/5.0 (X11; Linux)'' = ''mozilla/5.0 (x11; linux)''"
    by code_simp+
  have m: "\<not> geo_mobile ashburnGeo"
    by (simp add: ashburnGeo_def)
  show ?thesis
    using getConnectionType_cases [of "''Mozilla/5.0 (iPad; CPU OS 16_0)''" ashburnGeo]
      getConnectionType_cases [of "''Mozilla/5.0 (PlayStation 5)''" ashburnGeo]
      getConnectionType_cases [of "''Mozilla/5.0 (X11; Linux)''" ashburnGeo]
    by (simp add: l m includesStr_sublist [symmetric])
qed

text \<open>The local helper of the route \<open>/api/track\<close> compares case-sensitively and knows
  two classes.\<close>

lemma route_getConnectionType_iPad:
  "route_getConnectionType ''Mozilla/5.0 (iPad; CPU OS 16_0)'' ashburnGeo = ''Broadband''"
  by (simp add: route_getConnectionType_def ashburnGeo_def)

section \<open>The device fingerprint is a wrapped polynomial hash, folded by the absolute value\<close>

lemma wrap_eq_iff:
  "((a + k) mod m - k = (b + k) mod m - k) \<longleftrightarrow> m dvd (a - b)" for a b k m :: int
  by (simp add: mod_eq_dvd_iff)

lemma wrap_dvd: "m dvd ((a + k) mod m - k - a)" for a k m :: int
proof -
  have "(a + k) mod m - k - a = - ((a + k) - (a + k) mod m)" by simp
  moreover have "m dvd ((a + k) - (a + k) mod m)" by (rule dvd_minus_mod)
  ultimately show ?thesis by (simp only: dvd_minus_iff)
qed

lemma toInt32_eq_iff: "toInt32 a = toInt32 b \<longleftrightarrow> 2 ^ 32 dvd (a - b)"
  unfolding toInt32_def by (rule wrap_eq_iff)

lemma toInt32_dvd: "2 ^ 32 dvd (toInt32 a - a)"
  unfolding toInt32_def by (rule wrap_dvd)

lemma toInt32_idem: "toInt32 (toInt32 x) = toInt32 x"
  by (simp only: toInt32_eq_iff toInt32_dvd)

lemma poly31_append: "poly31 (p @ q) = poly31 p * 31 ^ length q + poly31 q"
  by (simp add: poly31_def horner_sum_append)

lemma poly31_Cons: "poly31 (c # cs) = of_char c * 31 ^ length cs + poly31 cs"
  using poly31_append [of "[c]" cs] by (simp add: poly31_def)

text \<open>One round of the loop multiplies by 31, adds the character code and wraps.\<close>

lemma hash_step:
  "bitAnd32 (shiftLeft32 h 5 - h + c) (shiftLeft32 h 5 - h + c) = toInt32 (31 * h + c)"
proof -
  let ?s = "toInt32 (toInt32 h * 32)"
  have "?s - h + c - (31 * h + c) = (?s - toInt32 h * 32) + (toInt32 h - h) * 32"
    by (simp add: algebra_simps)
  moreover have "2 ^ 32 dvd (?s - toInt32 h * 32)"
    by (rule toInt32_dvd)
  moreover have "2 ^ 32 dvd (toInt32 h - h) * 32"
    by (rule dvd_mult2) (rule toInt32_dvd)
  ultimately have "2 ^ 32 dvd (?s - h + c - (31 * h + c))"
    by (simp only: dvd_add)
  then have "toInt32 (?s - h + c) = toInt32 (31 * h + c)"
    by (simp only: toInt32_eq_iff)
  then show ?thesis
    by (simp add: bitAnd32_def shiftLeft32_def toInt32_idem)
qed

lemma hashChars_Cons: "hashChars h (c # cs) = hashChars (toInt32 (31 * h + of_char c)) cs"
  by (simp add: Let_def hash_step del: of_char_Char)

lemma hashChars_poly: "toInt32 (hashChars h s) = toInt32 (h * 31 ^ length s + poly31 s)"
proof (induction s arbitrary: h)
  case Nil
  then show ?case by (simp add: poly31_def)
next
  case (Cons c cs)
  let ?y = "31 * h + of_char c"
  have "toInt32 (hashChars h (c # cs))
        = toInt32 (toInt32 ?y * 31 ^ length cs + poly31 cs)"
    by (simp only: hashChars_Cons Cons.IH)
  also have "\<dots> = toInt32 (?y * 31 ^ length cs + poly31 cs)"
  proof -
    have "toInt32 ?y * 31 ^ length cs + poly31 cs - (?y * 31 ^ length cs + poly31 cs)
          = (toInt32 ?y - ?y) * 31 ^ length cs"
      by (simp add: algebra_simps)
    moreover have "2 ^ 32 dvd (toInt32 ?y - ?y) * 31 ^ length cs"
      by (rule dvd_mult2) (rule toInt32_dvd)
    ultimately show ?thesis by (simp only: toInt32_eq_iff)
  qed
  also have "\<dots> = toInt32 (h * 31 ^ length (c # cs) + poly31 (c # cs))"
    by (simp add: poly31_Cons algebra_simps)
  finally show ?case .
qed

lemma hashChars_fixed: "toInt32 h = h \<Longrightarrow> toInt32 (hashChars h s) = hashChars h s"
proof (induction s arbitrary: h)
  case Nil
  then show ?case by simp
next
  case (Cons c cs)
  show ?case
    by (simp only: hashChars_Cons) (rule Cons.IH, rule toInt32_idem)
qed

lemma hashChars_0: "hashChars 0 s = toInt32 (poly31 s)"
proof -
  have "toInt32 0 = 0" by (simp add: toInt32_def)
  then have "hashChars 0 s = toInt32 (hashChars 0 s)" by (simp add: hashChars_fixed)
  then show ?thesis by (simp add: hashChars_poly)
qed

text \<open>Replacing one character changes the 32-bit hash: 31 is odd, so the difference of
  the two polynomials, a power of 31 times a number between -255 and 255, is not a
  multiple of \<open>2^32\<close>.\<close>

lemma hash_one_char_differs:
  assumes "c \<noteq> c'"
  shows "hashChars 0 (p @ c # q) \<noteq> hashChars 0 (p @ c' # q)"
proof
  assume "hashChars 0 (p @ c # q) = hashChars 0 (p @ c' # q)"
  then have "2 ^ 32 dvd (poly31 (p @ c # q) - poly31 (p @ c' # q))"
    by (simp only: hashChars_0 toInt32_eq_iff)
  moreover have "poly31 (p @ c # q) - poly31 (p @ c' # q)
                 = 31 ^ length q * (of_char c - of_char c')"
    by (simp add: poly31_append poly31_Cons algebra_simps)
  ultimately have "(2 :: int) ^ 32 dvd 31 ^ length q * (of_char c - of_char c')"
    by simp
  moreover have "coprime ((2 :: int) ^ 32) (31 ^ length q)"
    by (rule coprime_power_left_iff [THEN iffD2], rule disjI1,
        rule coprime_power_right_iff [THEN iffD2], rule disjI1) simp
  ultimately have d: "(2 :: int) ^ 32 dvd (of_char c - of_char c')"
    by (simp only: coprime_dvd_mult_right_iff)
  have "(of_char c :: int) \<noteq> of_char c'"
    using assms by simp
  moreover have "0 \<le> (of_char c :: int)" "(of_char c :: int) < 256"
    "0 \<le> (of_char c' :: int)" "(of_char c' :: int) < 256"
    by (simp_all add: of_char_def)
  ultimately have "0 < \<bar>of_char c - of_char c' :: int\<bar>"
    and "\<bar>of_char c - of_char c' :: int\<bar> < 2 ^ 32"
    by simp_all
  then have "\<not> (2 :: int) ^ 32 dvd \<bar>of_char c - of_char c'\<bar>"
    by (rule zdvd_not_zless)
  moreover from d have "(2 :: int) ^ 32 dvd \<bar>of_char c - of_char c'\<bar>"
    by (simp only: dvd_abs_iff)
  ultimately show False
    by (rule notE)
qed

text \<open>The rendering in base 36 is injective.\<close>

lemma digit36_inj: "a < 36 \<Longrightarrow> b < 36 \<Longrightarrow> digit36 a = digit36 b \<Longrightarrow> a = b"
proof -
  have "distinct ''0123456789abcdefghijklmnopqrstuvwxyz''" by simp
  moreover have "length ''0123456789abcdefghijklmnopqrstuvwxyz'' = 36" by simp
  ultimately show "a < 36 \<Longrightarrow> b < 36 \<Longrightarrow> digit36 a = digit36 b \<Longrightarrow> a = b"
    unfolding digit36_def by (simp only: nth_eq_iff_index_eq)
qed

lemma toString36_not_Nil: "toString36 n \<noteq> []"
  by (subst toString36.simps) simp

lemma toString36_small: "n < 36 \<Longrightarrow> toString36 n = [digit36 n]"
  by (subst toString36.simps) simp

lemma toString36_large:
  "\<not> n < 36 \<Longrightarrow> toString36 n = toString36 (n div 36) @ [digit36 (n mod 36)]"
  by (subst toString36.simps) simp

lemma toString36_inj: "toString36 n = toString36 m \<Longrightarrow> n = m"
proof (induction n arbitrary: m rule: toString36.induct)
  case (1 n)
  show ?case
  proof (cases "n < 36")
    case True
    with "1.prems" have e: "toString36 m = [digit36 n]"
      by (simp add: toString36_small)
    have "m < 36"
    proof (rule ccontr)
      assume "\<not> m < 36"
      with e have "toString36 (m div 36) @ [digit36 (m mod 36)] = [digit36 n]"
        by (simp add: toString36_large)
      then show False by (simp add: toString36_not_Nil)
    qed
    with e True show ?thesis
      by (simp add: toString36_small digit36_inj)
  next
    case False
    with "1.prems" have e:
      "toString36 m = toString36 (n div 36) @ [digit36 (n mod 36)]"
      by (simp add: toString36_large)
    have m: "\<not> m < 36"
    proof
      assume "m < 36"
      with e show False
        by (simp add: toString36_small toString36_not_Nil [THEN not_sym])
    qed
    with e have "toString36 (n div 36) = toString36 (m div 36)"
      and d: "digit36 (n mod 36) = digit36 (m mod 36)"
      by (simp_all add: toString36_large)
    with False "1.IH" have "n div 36 = m div 36" by simp
    moreover from d have "n mod 36 = m mod 36"
      by (rule digit36_inj [rotated 2]) simp_all
    ultimately show ?thesis
      by (metis div_mult_mod_eq)
  qed
qed

lemma fingerprint_eq_iff:
  "generateDeviceFingerprint ua hs = generateDeviceFingerprint ua' hs' \<longleftrightarrow>
     \<bar>hashChars 0 (fingerprintData ua hs)\<bar> = \<bar>hashChars 0 (fingerprintData ua' hs')\<bar>"
proof -
  have "toString36 (nat \<bar>x\<bar>) = toString36 (nat \<bar>y\<bar>) \<longleftrightarrow> \<bar>x\<bar> = \<bar>y\<bar>" for x y :: int
  proof
    assume "toString36 (nat \<bar>x\<bar>) = toString36 (nat \<bar>y\<bar>)"
    then have "nat \<bar>x\<bar> = nat \<bar>y\<bar>" by (rule toString36_inj)
    then show "\<bar>x\<bar> = \<bar>y\<bar>" by simp
  next
    assume "\<bar>x\<bar> = \<bar>y\<bar>"
    then show "toString36 (nat \<bar>x\<bar>) = toString36 (nat \<bar>y\<bar>)" by simp
  qed
  then show ?thesis
    by (simp add: generateDeviceFingerprint_def Let_def)
qed

text \<open>The fingerprint of two concrete user agents that differ in their second character,
  with no header set.\<close>

lemma hash_heewluz: "hashChars 0 ''heewluz|||||'' = 44289914"
  by (simp add: hashChars_Cons toInt32_def del: hashChars.simps(2))

lemma hash_hqewluz: "hashChars 0 ''hqewluz|||||'' = - 44289914"
  by (simp add: hashChars_Cons toInt32_def del: hashChars.simps(2))

lemma data_heewluz: "fingerprintData ''heewluz'' Map.empty = ''heewluz|||||''"
  by (simp add: fingerprintData_def orEmpty_def)

lemma data_hqewluz: "fingerprintData ''hqewluz'' Map.empty = ''hqewluz|||||''"
  by (simp add: fingerprintData_def orEmpty_def)

lemma toString36_44289914: "toString36 44289914 = ''qdabe''"
  by (simp add: toString36.simps digit36_def)

text \<open>
  Claim C7, as stated, fails in its second half: the two user agents \<open>heewluz\<close> and
  \<open>hqewluz\<close> differ in exactly one character, and with the same (empty) headers both
  have the fingerprint \<open>qdabe\<close>. Their 32-bit hashes are 44289914 and -44289914, and
  \<open>Math.abs\<close> maps both to the same number.
\<close>

theorem fingerprint_one_char_collision:
  "''heewluz'' = ''h'' @ CHR ''e'' # ''ewluz''
   \<and> ''hqewluz'' = ''h'' @ CHR ''q'' # ''ewluz''
   \<and> CHR ''e'' \<noteq> CHR ''q''
   \<and> generateDeviceFingerprint ''heewluz'' Map.empty = ''qdabe''
   \<and> generateDeviceFingerprint ''hqewluz'' Map.empty = ''qdabe''"
proof -
  have "generateDeviceFingerprint ''heewluz'' Map.empty = ''qdabe''"
    unfolding generateDeviceFingerprint_def Let_def
    by (simp only: data_heewluz hash_heewluz) (simp add: toString36_44289914)
  moreover have "generateDeviceFingerprint ''hqewluz'' Map.empty = ''qdabe''"
    unfolding generateDeviceFingerprint_def Let_def
    by (simp only: data_hqewluz hash_hqewluz) (simp add: toString36_44289914)
  ultimately show ?thesis by simp
qed

text \<open>
  Claim C7, amended. (1) The fingerprint is the base-36 rendering of the absolute value
  of the 32-bit wrapped polynomial hash (base 31) of the string that joins the user
  agent and the five selected header values with \<open>|\<close>; so it is the same for two calls
  whose user agents and selected header values are the same. (2) When the joined
  strings of two calls differ in exactly one character, their 32-bit hashes differ, and
  the two fingerprints are equal exactly when the one hash is the negative of the other.
\<close>

theorem fingerprint_hash_properties:
  "generateDeviceFingerprint ua hs
     = toString36 (nat \<bar>toInt32 (poly31 (fingerprintData ua hs))\<bar>)
   \<and> (fingerprintData ua hs = fingerprintData ua' hs' \<longrightarrow>
        generateDeviceFingerprint ua hs = generateDeviceFingerprint ua' hs')
   \<and> (fingerprintData ua hs = p @ c # q \<and> fingerprintData ua' hs' = p @ c' # q \<and> c \<noteq> c' \<longrightarrow>
        hashChars 0 (fingerprintData ua hs) \<noteq> hashChars 0 (fingerprintData ua' hs')
        \<and> (generateDeviceFingerprint ua hs = generateDeviceFingerprint ua' hs' \<longleftrightarrow>
             hashChars 0 (fingerprintData ua' hs') = - hashChars 0 (fingerprintData ua hs)))"
proof (intro conjI impI)
  show "generateDeviceFingerprint ua hs
          = toString36 (nat \<bar>toInt32 (poly31 (fingerprintData ua hs))\<bar>)"
    by (simp add: generateDeviceFingerprint_def Let_def hashChars_0)
next
  assume "fingerprintData ua hs = fingerprintData ua' hs'"
  then show "generateDeviceFingerprint ua hs = generateDeviceFingerprint ua' hs'"
    by (simp add: generateDeviceFingerprint_def)
next
  assume a: "fingerprintData ua hs = p @ c # q \<and> fingerprintData ua' hs' = p @ c' # q \<and> c \<noteq> c'"
  then show "hashChars 0 (fingerprintData ua hs) \<noteq> hashChars 0 (fingerprintData ua' hs')"
    by (simp add: hash_one_char_differs)
next
  assume a: "fingerprintData ua hs = p @ c # q \<and> fingerprintData ua' hs' = p @ c' # q \<and> c \<noteq> c'"
  then have "hashChars 0 (fingerprintData ua hs) \<noteq> hashChars 0 (fingerprintData ua' hs')"
    by (simp add: hash_one_char_differs)
  then show "generateDeviceFingerprint ua hs = generateDeviceFingerprint ua' hs' \<longleftrightarrow>
             hashChars 0 (fingerprintData ua' hs') = - hashChars 0 (fingerprintData ua hs)"
    unfolding fingerprint_eq_iff by linarith
qed

theorem fingerprint_hash_properties_witness:
  "fingerprintData ''curl/8.4'' Map.empty = ''curl/8.'' @ CHR ''4'' # ''|||||''
   \<and> fingerprintData ''curl/8.5'' Map.empty = ''curl/8.'' @ CHR ''5'' # ''|||||''
   \<and> CHR ''4'' \<noteq> CHR ''5''
   \<and> hashChars 0 (fingerprintData ''curl/8.4'' Map.empty)
       \<noteq> hashChars 0 (fingerprintData ''curl/8.5'' Map.empty)"
proof -
  have h: "fingerprintData ''curl/8.4'' Map.empty = ''curl/8.'' @ CHR ''4'' # ''|||||''
           \<and> fingerprintData ''curl/8.5'' Map.empty = ''curl/8.'' @ CHR ''5'' # ''|||||''
           \<and> CHR ''4'' \<noteq> CHR ''5''"
    by (simp add: fingerprintData_def orEmpty_def)
  from fingerprint_hash_properties
         [of "''curl/8.4''" Map.empty "''curl/8.5''" Map.empty "''curl/8.''" "CHR ''4''"
             "''|||||''" "CHR ''5''"] h
  show ?thesis by blast
qed

section \<open>The resolver walks the providers in order\<close>

lemma tryApis_calls:
  "snd (tryApis net as) =
     map api_url (takeWhile (attemptFails net) as)
     @ (case dropWhile (attemptFails net) as of [] \<Rightarrow> [] | a # _ \<Rightarrow> [api_url a])"
  by (induction as) (auto simp: attemptFails_def split: sum.splits prod.splits)

lemma tryApis_calls_prefix: "prefix (snd (tryApis net as)) (map api_url as)"
  by (induction as) (auto split: sum.splits prod.splits)

lemma tryApis_success:
  "(\<forall>b \<in> set pre. attemptFails net b) \<Longrightarrow> tryApi net a = Inr g \<Longrightarrow>
     tryApis net (pre @ a # post) = (Inr g, map api_url pre @ [api_url a])"
  by (induction pre) (auto simp: attemptFails_def split: sum.splits prod.splits)

lemma tryApis_all_fail:
  "(\<forall>b \<in> set as. attemptFails net b) \<Longrightarrow> tryApis net as = (Inl AllFailed, map api_url as)"
  by (induction as) (auto simp: attemptFails_def split: sum.splits prod.splits)

lemma tryApis_Inl:
  "fst (tryApis net as) = Inl e \<Longrightarrow> e = AllFailed \<and> (\<forall>b \<in> set as. attemptFails net b)"
  by (induction as) (auto simp: attemptFails_def split: sum.splits prod.splits)

lemma tryApi_Inr:
  "tryApi net a = Inr g \<Longrightarrow>
     \<exists>status statusText data.
        net (api_url a) = Response status statusText (Some data) \<and> ok status
        \<and> providerError (api_name a) data = None \<and> api_transform a data = Inr g"
  by (auto simp: tryApi_def split: fetch_result.splits if_splits option.splits)

lemma attemptFails_Timeout: "net (api_url a) = Timeout \<Longrightarrow> attemptFails net a"
  by (simp add: attemptFails_def tryApi_def)

lemma attemptFails_status:
  "net (api_url a) = Response status statusText body \<Longrightarrow> \<not> ok status \<Longrightarrow> attemptFails net a"
  by (simp add: attemptFails_def tryApi_def)

lemma attemptFails_flag:
  "net (api_url a) = Response status statusText (Some data) \<Longrightarrow>
   (api_name a = ''ip-api.com'' \<and> getField data ''status'' \<noteq> JString ''success'')
   \<or> (api_name a = ''ipapi.co'' \<and> truthy (getField data ''error'')) \<Longrightarrow>
   attemptFails net a"
  by (auto simp: attemptFails_def tryApi_def providerError_def)

text \<open>
  Claim C1. For every IP and every provider list, the resolver tries the providers in
  the order of the list (the configured list is \<open>ip-api.com\<close>, \<open>ipapi.co\<close>,
  \<open>ipinfo.io\<close>): the calls it makes are the URLs of the providers whose attempt fails,
  up to and including the first one whose attempt succeeds. A timeout, a status outside
  200..299 and the error flag of \<open>ip-api.com\<close> or \<open>ipapi.co\<close> each make the attempt of
  that provider fail; no such failure reaches the caller, the only error of the loop is
  the total failure after every provider failed. When the providers before one fail and
  that one succeeds, the result is exactly its transform applied to the JSON of its
  response.
\<close>

theorem resolver_fallback_order:
  "fetchGeoLocationWithFallback Number net ip False = tryApis net (apis Number ip)
   \<and> map api_name (apis Number ip) = [''ip-api.com'', ''ipapi.co'', ''ipinfo.io'']
   \<and> prefix (snd (tryApis net as)) (map api_url as)
   \<and> snd (tryApis net as) =
        map api_url (takeWhile (attemptFails net) as)
        @ (case dropWhile (attemptFails net) as of [] \<Rightarrow> [] | a # _ \<Rightarrow> [api_url a])
   \<and> (net (api_url a) = Timeout \<longrightarrow> attemptFails net a)
   \<and> (net (api_url a) = Response status statusText body \<and> \<not> ok status \<longrightarrow> attemptFails net a)
   \<and> (net (api_url a) = Response status statusText (Some data)
        \<and> ((api_name a = ''ip-api.com'' \<and> getField data ''status'' \<noteq> JString ''success'')
            \<or> (api_name a = ''ipapi.co'' \<and> truthy (getField data ''error'')))
        \<longrightarrow> attemptFails net a)
   \<and> (fst (tryApis net as) = Inl e \<longrightarrow> e = AllFailed \<and> (\<forall>b \<in> set as. attemptFails net b))
   \<and> ((\<forall>b \<in> set pre. attemptFails net b) \<and> tryApi net a = Inr g \<longrightarrow>
        tryApis net (pre @ a # post) = (Inr g, map api_url pre @ [api_url a])
        \<and> (\<exists>status' statusText' raw.
              net (api_url a) = Response status' statusText' (Some raw) \<and> ok status'
              \<and> api_transform a raw = Inr g))"
proof (intro conjI impI)
  show "fetchGeoLocationWithFallback Number net ip False = tryApis net (apis Number ip)"
    by (simp add: fetchGeoLocationWithFallback_def)
  show "map api_name (apis Number ip) = [''ip-api.com'', ''ipapi.co'', ''ipinfo.io'']"
    by (simp add: apis_def)
  show "prefix (snd (tryApis net as)) (map api_url as)"
    by (rule tryApis_calls_prefix)
  show "snd (tryApis net as) =
        map api_url (takeWhile (attemptFails net) as)
        @ (case dropWhile (attemptFails net) as of [] \<Rightarrow> [] | a # _ \<Rightarrow> [api_url a])"
    by (rule tryApis_calls)
  show "attemptFails net a" if "net (api_url a) = Timeout"
    using that by (rule attemptFails_Timeout)
  show "attemptFails net a"
    if "net (api_url a) = Response status statusText body \<and> \<not> ok status"
    using that by (blast intro: attemptFails_status)
  show "attemptFails net a"
    if "net (api_url a) = Response status statusText (Some data)
        \<and> ((api_name a = ''ip-api.com'' \<and> getField data ''status'' \<noteq> JString ''success'')
            \<or> (api_name a = ''ipapi.co'' \<and> truthy (getField data ''error'')))"
    using that by (blast intro: attemptFails_flag)
  show "e = AllFailed" if "fst (tryApis net as) = Inl e"
    using that by (blast dest: tryApis_Inl)
  show "\<forall>b \<in> set as. attemptFails net b" if "fst (tryApis net as) = Inl e"
    using that by (blast dest: tryApis_Inl)
  show "tryApis net (pre @ a # post) = (Inr g, map api_url pre @ [api_url a])"
    if "(\<forall>b \<in> set pre. attemptFails net b) \<and> tryApi net a = Inr g"
    using that by (simp add: tryApis_success)
  show "\<exists>status' statusText' raw.
              net (api_url a) = Response status' statusText' (Some raw) \<and> ok status'
              \<and> api_transform a raw = Inr g"
    if "(\<forall>b \<in> set pre. attemptFails net b) \<and> tryApi net a = Inr g"
    using that tryApi_Inr [of net a g] by blast
qed


lemma apis_split:
  "apis Number ip = [apis Number ip ! 0] @ (apis Number ip ! 1) # [apis Number ip ! 2]"
  by (simp add: apis_def)

theorem resolver_fallback_order_witness:
  "secondAnswers (api_url (apis (\<lambda>s. NaN) ''8.8.8.8'' ! 0)) = Timeout
   \<and> secondAnswers (api_url (apis (\<lambda>s. NaN) ''8.8.8.8'' ! 1)) = Response 200 ''OK'' (Some exampleBody)
   \<and> fetchGeoLocationWithFallback (\<lambda>s. NaN) secondAnswers ''8.8.8.8'' False
       = (transform_ipapi_co ''8.8.8.8'' exampleBody,
          [api_url (apis (\<lambda>s. NaN) ''8.8.8.8'' ! 0), api_url (apis (\<lambda>s. NaN) ''8.8.8.8'' ! 1)])"
proof -
  let ?N = "\<lambda>s :: string. NaN"
  let ?as = "apis ?N ''8.8.8.8''"
  let ?g = "JObject
        [(''query'', JString ''8.8.8.8''),
         (''status'', JString ''success''),
         (''country'', JString ''United States''),
         (''countryCode'', JString ''US''),
         (''region'', JString ''CA''),
         (''regionName'', JString ''California''),
         (''city'', JString ''Mountain View''),
         (''zip'', JString ''94043''),
         (''lat'', JNumber (Num 37.42)),
         (''lon'', JNumber (Num (- 122.08))),
         (''timezone'', JString ''America/Los_Angeles''),
         (''isp'', JString ''Google LLC''),
         (''org'', JString ''Google LLC''),
         (''as'', JString ''AS15169''),
         (''reverse'', JString ''Unknown''),
         (''mobile'', JBool False),
         (''proxy'', JBool False),
         (''hosting'', JBool False)]"
  have t: "secondAnswers (api_url (?as ! 0)) = Timeout"
    by (simp add: apis_def secondAnswers_def)
  have r: "secondAnswers (api_url (?as ! 1)) = Response 200 ''OK'' (Some exampleBody)"
    by (simp add: apis_def secondAnswers_def)
  have tr: "transform_ipapi_co ''8.8.8.8'' exampleBody = Inr ?g"
    by (simp add: transform_ipapi_co_def exampleBody_def nullish_def getField_def jsOr_def
        truthy_def truthyNum_def)
  have pe: "providerError ''ipapi.co'' exampleBody = None"
    by (simp add: providerError_def exampleBody_def nullish_def getField_def truthy_def)
  have s: "tryApi secondAnswers (?as ! 1) = Inr ?g"
    using r pe tr by (simp add: tryApi_def ok_def) (simp add: apis_def)
  from resolver_fallback_order [where net = secondAnswers and a = "?as ! 0"] t
  have f: "\<forall>b \<in> set [?as ! 0]. attemptFails secondAnswers b"
    by simp
  from resolver_fallback_order
         [where net = secondAnswers and a = "?as ! 1" and pre = "[?as ! 0]" and g = ?g
            and post = "[?as ! 2]"] f s
  have "tryApis secondAnswers ([?as ! 0] @ (?as ! 1) # [?as ! 2])
          = (Inr ?g, map api_url [?as ! 0] @ [api_url (?as ! 1)])"
    by blast
  then have "tryApis secondAnswers ?as = (Inr ?g, [api_url (?as ! 0), api_url (?as ! 1)])"
    by (subst (asm) apis_split [symmetric]) simp
  then show ?thesis
    using t r tr by (simp add: fetchGeoLocationWithFallback_def)
qed

section \<open>The tracking handler: when it answers, and with what\<close>

lemma location_respond:
  "tp_location (respond rt w ip hs ua g) =
     \<lparr>loc_country = geo_country g, loc_countryCode = geo_countryCode g,
      loc_region = geo_regionName g, loc_city = geo_city g, loc_zip = geo_zip g,
      loc_lat = geo_lat g, loc_lon = geo_lon g, loc_timezone = geo_timezone g\<rparr>"
  by (simp add: respond_def Let_def)

lemma asGeo_localhostGeo:
  "asGeo (localhostGeo e) =
     Some \<lparr>geo_query = e, geo_status = ''success'', geo_country = ''United Kingdom'',
           geo_countryCode = ''GB'', geo_region = ''ENG'', geo_regionName = ''England'',
           geo_city = ''London'', geo_zip = ''EC1A 1BB'', geo_lat = Num 51.5074,
           geo_lon = Num (- 0.1278), geo_timezone = JString ''Europe/London'',
           geo_isp = ''Development Network'', geo_org = ''Local Development Environment'',
           geo_as = ''AS0 Localhost'', geo_reverse = ''localhost.localdomain'',
           geo_mobile = False, geo_proxy = False, geo_hosting = True, geo_threat = None\<rparr>"
  by (simp add: asGeo_def localhostGeo_def strField_def numField_def boolField_def
      optStrField_def getField_def)

lemma probeFails_keeps_ip: "probeFails net \<Longrightarrow> probePublicIP net ip = JString ip"
  by (auto simp: probeFails_def probePublicIP_def split: fetch_result.splits option.splits)

lemma callResolver_public:
  "callResolver Number net (JString ip) isLocalhost
     = fetchGeoLocationWithFallback Number net ip isLocalhost"
  by (simp add: callResolver_def)

lemma callResolver_local:
  "callResolver Number net v True =
     (if templateThrows v then (Inl TypeError, []) else (Inr (localhostGeo v), []))"
  by (cases v) (simp_all add: callResolver_def fetchGeoLocationWithFallback_def)

text \<open>The record the handler works with for a local address.\<close>

lemma local_geoData:
  "\<exists>g. geoDataOf (fst (callResolver Number net v True)) v True clientData = Some g
       \<and> snd (callResolver Number net v True) = []
       \<and> geo_country g = ''United Kingdom'' \<and> geo_city g = ''London''
       \<and> geo_lat g = Num 51.5074 \<and> geo_lon g = Num (- 0.1278)"
  by (simp add: callResolver_local geoDataOf_def asGeo_localhostGeo fallbackGeo_def)

lemma local_geoData_string:
  "geoDataOf (fst (callResolver Number net (JString ip) True)) (JString ip) True clientData
     = asGeo (localhostGeo (JString ip))"
  by (simp add: callResolver_local geoDataOf_def)

lemma POST_public:
  assumes "req_body request = Some clientData"
    and "extractClientIP (req_headers request) = ip"
    and "\<not> isLocalIP ip"
  shows "POST rt w request =
     (case fetchGeoLocationWithFallback (rt_Number rt) (w_net w) ip False of
        (resolved, geoCalls) \<Rightarrow>
          (case clientUserAgent clientData of
             None \<Rightarrow> (TrackingFailed, geoCalls)
           | Some userAgent \<Rightarrow>
               (case geoDataOf resolved (JString ip) False clientData of
                  None \<Rightarrow> (Untyped, geoCalls)
                | Some geoData \<Rightarrow>
                    if echoThrows clientData then (TrackingFailed, geoCalls)
                    else (Tracked (respond rt w ip (req_headers request) userAgent geoData),
                          geoCalls))))"
  using assms
  by (simp add: POST_def Let_def callResolver_public split: prod.splits option.splits)

lemma POST_local:
  assumes "req_body request = Some clientData"
    and "extractClientIP (req_headers request) = ip"
    and "isLocalIP ip"
  shows "POST rt w request =
     (case clientUserAgent clientData of
        None \<Rightarrow> (TrackingFailed, [ipifyUrl])
      | Some userAgent \<Rightarrow>
          if echoThrows clientData then (TrackingFailed, [ipifyUrl])
          else (Tracked (respond rt w ip (req_headers request) userAgent
                  (the (geoDataOf
                          (fst (callResolver (rt_Number rt) (w_net w)
                                  (probePublicIP (w_net w) ip) True))
                          (probePublicIP (w_net w) ip) True clientData))),
                [ipifyUrl]))"
proof -
  let ?e = "probePublicIP (w_net w) ip"
  obtain g where g: "geoDataOf (fst (callResolver (rt_Number rt) (w_net w) ?e True)) ?e True
                       clientData = Some g"
    and c: "snd (callResolver (rt_Number rt) (w_net w) ?e True) = []"
    using local_geoData [of "rt_Number rt" "w_net w" ?e clientData] by blast
  obtain r where r: "callResolver (rt_Number rt) (w_net w) ?e True = (r, [])"
    using c by (cases "callResolver (rt_Number rt) (w_net w) ?e True") simp
  from g r have g': "geoDataOf r ?e True clientData = Some g"
    by simp
  show ?thesis
    using assms r g' by (simp add: POST_def Let_def split: option.splits)
qed

text \<open>A body that is not JSON, or that has no string \<open>userAgent\<close>, is answered with the
  error envelope, whatever the address and the network.\<close>

lemma POST_no_body: "req_body request = None \<Longrightarrow> POST rt w request = (TrackingFailed, [])"
  by (simp add: POST_def)

lemma POST_no_userAgent:
  "req_body request = Some clientData \<Longrightarrow> clientUserAgent clientData = None \<Longrightarrow>
     fst (POST rt w request) = TrackingFailed"
  by (simp add: POST_def Let_def split: prod.splits)

text \<open>What the transforms of the second and third provider build has every required
  field; so has the simulated record.\<close>

lemma jsOr_defined: "b \<noteq> JUndefined \<Longrightarrow> jsOr a b \<noteq> JUndefined"
  by (cases a) (simp_all add: jsOr_def truthy_def)

lemma numberOr0_defined: "numberOr0 n \<noteq> JUndefined"
  by (simp add: numberOr0_def split: option.splits)

lemma populated_ipapi_co: "transform_ipapi_co ip data = Inr v \<Longrightarrow> populated v"
  by (auto simp: transform_ipapi_co_def populated_def requiredFields_def getField_def
      jsOr_defined split: if_splits)

lemma populated_ipinfo: "transform_ipinfo Number ip data = Inr v \<Longrightarrow> populated v"
  by (auto simp: transform_ipinfo_def populated_def requiredFields_def getField_def Let_def
      jsOr_defined numberOr0_defined split: if_splits jsval.splits)

lemma populated_localhostGeo: "v \<noteq> JUndefined \<Longrightarrow> populated (localhostGeo v)"
  by (simp add: localhostGeo_def populated_def requiredFields_def getField_def)

lemma tryApis_Inr: "fst (tryApis net as) = Inr v \<Longrightarrow> \<exists>a \<in> set as. tryApi net a = Inr v"
  by (induction as) (auto split: sum.splits prod.splits)

lemma resolver_populated:
  assumes "fst (fetchGeoLocationWithFallback Number net ip isLocalhost) = Inr v"
  shows "populated v
     \<or> (\<not> isLocalhost
        \<and> (\<exists>status statusText.
              net (api_url (apis Number ip ! 0)) = Response status statusText (Some v)))"
proof (cases isLocalhost)
  case True
  with assms show ?thesis
    by (auto simp: fetchGeoLocationWithFallback_def populated_localhostGeo)
next
  case False
  with assms have "fst (tryApis net (apis Number ip)) = Inr v"
    by (simp add: fetchGeoLocationWithFallback_def)
  then obtain a where a: "a \<in> set (apis Number ip)" and t: "tryApi net a = Inr v"
    using tryApis_Inr by blast
  from tryApi_Inr [OF t] obtain status statusText data
    where n: "net (api_url a) = Response status statusText (Some data)"
      and tr: "api_transform a data = Inr v"
    by blast
  from a have "a = apis Number ip ! 0 \<or> a = apis Number ip ! 1 \<or> a = apis Number ip ! 2"
    by (subst (asm) apis_split) auto
  then show ?thesis
  proof (elim disjE)
    assume e: "a = apis Number ip ! 0"
    with tr have "data = v"
      by (simp add: apis_def transform_ip_api_def)
    with n e False show ?thesis by blast
  next
    assume "a = apis Number ip ! 1"
    with tr have "transform_ipapi_co ip data = Inr v"
      by (simp add: apis_def)
    then show ?thesis by (blast intro: populated_ipapi_co)
  next
    assume "a = apis Number ip ! 2"
    with tr have "transform_ipinfo Number ip data = Inr v"
      by (simp add: apis_def)
    then show ?thesis by (blast intro: populated_ipinfo)
  qed
qed

text \<open>The addresses of the statements' wording against the handler's test.\<close>

lemma split_Cons_Cons:
  "split sep s = p # q # ps \<Longrightarrow> \<exists>s'. s = p @ sep # s' \<and> split sep s' = q # ps"
proof (induction s arbitrary: p)
  case Nil
  then show ?case by simp
next
  case (Cons c cs)
  show ?case
  proof (cases "c = sep")
    case True
    with Cons.prems show ?thesis by simp
  next
    case False
    obtain x xs where x: "split sep cs = x # xs"
      using split_not_Nil [of sep cs] by (cases "split sep cs") auto
    with False Cons.prems have "p = c # x" and "xs = q # ps"
      by simp_all
    with x Cons.IH [of x] show ?thesis
      by auto
  qed
qed

lemma octetValue_Some: "octetValue s = Some n \<Longrightarrow> s = showOctet n"
  by (auto simp: octetValue_def find_Some_iff)

lemma showOctet_10: "showOctet 10 = ''10''"
  by code_simp

lemma showOctet_172: "showOctet 172 = ''172''"
  by code_simp

lemma showOctet_192: "showOctet 192 = ''192''"
  by code_simp

lemma showOctet_168: "showOctet 168 = ''168''"
  by code_simp

lemma parseIPv4_Some:
  assumes "parseIPv4 ip = Some (a, b, c, d)"
  shows "\<exists>rest. ip = showOctet a @ ''.'' @ showOctet b @ ''.'' @ rest"
proof -
  from assms obtain p1 p2 p3 p4
    where s: "split CHR ''.'' ip = [p1, p2, p3, p4]"
      and o: "octetValue p1 = Some a" "octetValue p2 = Some b"
    by (auto simp: parseIPv4_def split: list.splits option.splits)
  from split_Cons_Cons [OF s] obtain s' where 1: "ip = p1 @ CHR ''.'' # s'"
    and 2: "split CHR ''.'' s' = [p2, p3, p4]"
    by blast
  from split_Cons_Cons [OF 2] obtain s'' where 3: "s' = p2 @ CHR ''.'' # s''"
    by blast
  from 1 3 o show ?thesis
    by (auto dest!: octetValue_Some)
qed

lemma private_isLocalIP: "isPrivateAddress ip \<Longrightarrow> isLocalIP ip"
proof -
  assume "isPrivateAddress ip"
  then obtain a b c d where p: "parseIPv4 ip = Some (a, b, c, d)"
    and r: "a = 10 \<or> a = 172 \<or> (a = 192 \<and> b = 168)"
    by (auto simp: isPrivateAddress_def split: option.splits)
  from parseIPv4_Some [OF p] obtain rest
    where ip: "ip = showOctet a @ ''.'' @ showOctet b @ ''.'' @ rest"
    by blast
  from r show ?thesis
  proof (elim disjE conjE)
    assume "a = 10"
    with ip show ?thesis
      by (simp add: showOctet_10 isLocalIP_def startsWith_def)
  next
    assume "a = 172"
    with ip show ?thesis
      by (simp add: showOctet_172 isLocalIP_def startsWith_def)
  next
    assume "a = 192" and "b = 168"
    with ip show ?thesis
      by (simp add: showOctet_192 showOctet_168 isLocalIP_def startsWith_def)
  qed
qed

lemma all_fail_downWorld:
  "\<forall>a \<in> set (apis Number ip). attemptFails (w_net downWorld) a"
  by (simp add: attemptFails_def tryApi_def downWorld_def allTimeout_def)

lemma ip_publicRequest: "extractClientIP (req_headers publicRequest) = ''8.8.8.8''"
  by (simp add: publicRequest_def extractClientIP_def truthyStr_def trim_def isSpace_def)

lemma ip_emptyBodyRequest: "extractClientIP (req_headers emptyBodyRequest) = ''8.8.8.8''"
  by (simp add: emptyBodyRequest_def extractClientIP_def truthyStr_def trim_def isSpace_def)

lemma not_local_8888: "\<not> isLocalIP ''8.8.8.8''"
  by (simp add: isLocalIP_def startsWith_def)

lemma userAgent_exampleClient:
  "clientUserAgent exampleClient = Some ''Mozilla/5.0 (X11; Linux)''"
  by (simp add: clientUserAgent_def exampleClient_def getField_def)

lemma echo_exampleClient: "\<not> echoThrows exampleClient"
  by (simp add: echoThrows_def exampleClient_def getField_def truthy_def Let_def)

lemma timezone_exampleClient:
  "jsOr (getField exampleClient ''timezone'') (JString ''UTC'') = JString ''Europe/Paris''"
  by (simp add: exampleClient_def getField_def jsOr_def truthy_def)

lemma userAgent_empty: "clientUserAgent (JObject []) = None"
  by (simp add: clientUserAgent_def getField_def)

lemma urls_8888:
  "map api_url (apis Number ''8.8.8.8'') =
     [''http://ip-api.com/json/8.8.8.8?fields=status,message,country,countryCode,region,regionName,city,zip,lat,lon,timezone,isp,org,as,reverse,mobile,proxy,hosting,query&lang=en'',
      ''https://ipapi.co/8.8.8.8/json/'',
      ''https://ipinfo.io/8.8.8.8/json'']"
  by (simp add: apis_def)

lemma secondAnswers_resolves:
  "fetchGeoLocationWithFallback (\<lambda>s. NaN) secondAnswers ''8.8.8.8'' False
     = (transform_ipapi_co ''8.8.8.8'' exampleBody,
        [''http://ip-api.com/json/8.8.8.8?fields=status,message,country,countryCode,region,regionName,city,zip,lat,lon,timezone,isp,org,as,reverse,mobile,proxy,hosting,query&lang=en'',
         ''https://ipapi.co/8.8.8.8/json/''])"
proof -
  have pe: "providerError ''ipapi.co'' exampleBody = None"
    by (simp add: providerError_def exampleBody_def nullish_def getField_def truthy_def)
  have n: "\<not> nullish exampleBody"
    by (simp add: nullish_def exampleBody_def)
  show ?thesis
    by (simp add: fetchGeoLocationWithFallback_def apis_def tryApi_def secondAnswers_def ok_def
        pe transform_ipapi_co_def n)
qed

text \<open>
  Claim C2 fails as stated, on two inputs. First, a request from the public address
  8.8.8.8 whose body is the empty object, with every provider timing out: the resolver
  signals the total failure after its three calls, the handler substitutes the static
  record, and then answers with the error envelope (status 500), because the body has no
  user agent to read. Second, the resolver returns the body of \<open>ip-api.com\<close> as it
  arrived: when the provider answers with the object \<open>{"status": "success"}\<close>, the
  record returned is that object, without a country or any other field.
\<close>

theorem total_failure_error_envelope:
  "list_all (attemptFails (w_net downWorld)) (apis (rt_Number exampleRuntime) ''8.8.8.8'')
   \<and> extractClientIP (req_headers emptyBodyRequest) = ''8.8.8.8''
   \<and> req_body emptyBodyRequest = Some (JObject [])
   \<and> POST exampleRuntime downWorld emptyBodyRequest
       = (TrackingFailed,
          [''http://ip-api.com/json/8.8.8.8?fields=status,message,country,countryCode,region,regionName,city,zip,lat,lon,timezone,isp,org,as,reverse,mobile,proxy,hosting,query&lang=en'',
           ''https://ipapi.co/8.8.8.8/json/'',
           ''https://ipinfo.io/8.8.8.8/json''])
   \<and> fetchGeoLocationWithFallback (rt_Number exampleRuntime) allBare ''8.8.8.8'' False
       = (Inr (JObject [(''status'', JString ''success'')]),
          [''http://ip-api.com/json/8.8.8.8?fields=status,message,country,countryCode,region,regionName,city,zip,lat,lon,timezone,isp,org,as,reverse,mobile,proxy,hosting,query&lang=en''])
   \<and> getField (JObject [(''status'', JString ''success'')]) ''country'' = JUndefined"
proof -
  have f: "fetchGeoLocationWithFallback (rt_Number exampleRuntime) (w_net downWorld)
             ''8.8.8.8'' False
           = (Inl AllFailed, map api_url (apis (rt_Number exampleRuntime) ''8.8.8.8''))"
    by (simp add: fetchGeoLocationWithFallback_def tryApis_all_fail all_fail_downWorld)
  have b: "req_body emptyBodyRequest = Some (JObject [])"
    by (simp add: emptyBodyRequest_def)
  have p: "POST exampleRuntime downWorld emptyBodyRequest
       = (TrackingFailed, map api_url (apis (rt_Number exampleRuntime) ''8.8.8.8''))"
    by (simp add: POST_public [OF b ip_emptyBodyRequest not_local_8888] f userAgent_empty)
  have r: "fetchGeoLocationWithFallback (rt_Number exampleRuntime) allBare ''8.8.8.8'' False
       = (Inr (JObject [(''status'', JString ''success'')]),
          [''http://ip-api.com/json/8.8.8.8?fields=status,message,country,countryCode,region,regionName,city,zip,lat,lon,timezone,isp,org,as,reverse,mobile,proxy,hosting,query&lang=en''])"
    by (simp add: fetchGeoLocationWithFallback_def apis_def tryApi_def allBare_def ok_def
        providerError_def bareSuccess_def nullish_def getField_def transform_ip_api_def)
  show ?thesis
    using all_fail_downWorld [of "rt_Number exampleRuntime" "''8.8.8.8''"] p r b
    by (simp add: list_all_iff ip_emptyBodyRequest urls_8888 getField_def)
qed

text \<open>
  Claim C2, amended. When the attempt of every configured provider fails, the resolver
  (called for a public address, the case in which it consults the providers) signals the
  total failure \<open>AllFailed\<close> after calling each provider once, in order, and it signals
  no other failure. A record it does return has every required field when it comes from
  \<open>ipapi.co\<close>, from \<open>ipinfo.io\<close> or from the simulation for local addresses; from
  \<open>ip-api.com\<close> it is the body of the response as received. After the total failure,
  for a client IP that is not local, the handler has made exactly the three provider
  calls; when the body of the request is an object with a string \<open>userAgent\<close> whose
  entries \<open>webgl\<close>, \<open>fonts\<close> and \<open>plugins\<close> can be formatted, it substitutes the static
  record and answers with the success payload built from it, whether or not the database
  accepts the insert: the location of the response is the static \<open>Unknown\<close> location
  with the time zone of the body (\<open>UTC\<close> without one). On every other body it answers
  with the error envelope, as it does without any call on a body that is not JSON.
\<close>

theorem total_failure_falls_back:
  "((\<forall>a \<in> set (apis Number ip). attemptFails net a) \<longrightarrow>
       fetchGeoLocationWithFallback Number net ip False
         = (Inl AllFailed, map api_url (apis Number ip)))
   \<and> (fst (fetchGeoLocationWithFallback Number net ip isLocalhost) = Inl e \<longrightarrow>
        e = AllFailed \<and> \<not> isLocalhost \<and> (\<forall>a \<in> set (apis Number ip). attemptFails net a))
   \<and> (fst (fetchGeoLocationWithFallback Number net ip isLocalhost) = Inr v \<longrightarrow>
        populated v
        \<or> (\<not> isLocalhost
           \<and> (\<exists>status statusText.
                 net (api_url (apis Number ip ! 0)) = Response status statusText (Some v))))
   \<and> (req_body request = Some clientData
        \<and> extractClientIP (req_headers request) = ip \<and> \<not> isLocalIP ip
        \<and> (\<forall>a \<in> set (apis (rt_Number rt) ip). attemptFails (w_net w) a) \<longrightarrow>
       snd (POST rt w request) = map api_url (apis (rt_Number rt) ip)
       \<and> (clientUserAgent clientData = Some userAgent \<and> \<not> echoThrows clientData \<longrightarrow>
            fst (POST rt w request)
              = Tracked (respond rt w ip (req_headers request) userAgent
                           (fallbackGeo (JString ip) False clientData))
            \<and> tp_location (respond rt w ip (req_headers request) userAgent
                               (fallbackGeo (JString ip) False clientData))
                = \<lparr>loc_country = ''Unknown'', loc_countryCode = ''XX'',
                   loc_region = ''Unknown'', loc_city = ''Unknown'', loc_zip = ''Unknown'',
                   loc_lat = Num 0, loc_lon = Num 0,
                   loc_timezone = jsOr (getField clientData ''timezone'') (JString ''UTC'')\<rparr>)
       \<and> (clientUserAgent clientData = None \<or> echoThrows clientData \<longrightarrow>
            fst (POST rt w request) = TrackingFailed))
   \<and> (req_body request = None \<longrightarrow> POST rt w request = (TrackingFailed, []))"
proof (intro conjI impI)
  assume "\<forall>a \<in> set (apis Number ip). attemptFails net a"
  then show "fetchGeoLocationWithFallback Number net ip False
               = (Inl AllFailed, map api_url (apis Number ip))"
    by (simp only: fetchGeoLocationWithFallback_def if_False tryApis_all_fail)
next
  assume "fst (fetchGeoLocationWithFallback Number net ip isLocalhost) = Inl e"
  then have "\<not> isLocalhost \<and> fst (tryApis net (apis Number ip)) = Inl e"
    by (simp add: fetchGeoLocationWithFallback_def split: if_splits)
  then show "e = AllFailed" and "\<not> isLocalhost"
    and "\<forall>a \<in> set (apis Number ip). attemptFails net a"
    by (blast dest: tryApis_Inl)+
next
  assume "fst (fetchGeoLocationWithFallback Number net ip isLocalhost) = Inr v"
  then show "populated v
        \<or> (\<not> isLocalhost
           \<and> (\<exists>status statusText.
                 net (api_url (apis Number ip ! 0)) = Response status statusText (Some v)))"
    by (rule resolver_populated)
next
  assume a: "req_body request = Some clientData
        \<and> extractClientIP (req_headers request) = ip \<and> \<not> isLocalIP ip
        \<and> (\<forall>a \<in> set (apis (rt_Number rt) ip). attemptFails (w_net w) a)"
  then have "\<forall>a \<in> set (apis (rt_Number rt) ip). attemptFails (w_net w) a"
    by blast
  then have f: "fetchGeoLocationWithFallback (rt_Number rt) (w_net w) ip False
               = (Inl AllFailed, map api_url (apis (rt_Number rt) ip))"
    by (simp only: fetchGeoLocationWithFallback_def if_False tryApis_all_fail)
  from a have p: "POST rt w request =
     (case clientUserAgent clientData of
        None \<Rightarrow> (TrackingFailed, map api_url (apis (rt_Number rt) ip))
      | Some userAgent \<Rightarrow>
          if echoThrows clientData
          then (TrackingFailed, map api_url (apis (rt_Number rt) ip))
          else (Tracked (respond rt w ip (req_headers request) userAgent
                           (fallbackGeo (JString ip) False clientData)),
                map api_url (apis (rt_Number rt) ip)))"
    by (simp add: POST_public f geoDataOf_def split: option.splits)
  show "snd (POST rt w request) = map api_url (apis (rt_Number rt) ip)"
    by (simp add: p split: option.splits)
  show "fst (POST rt w request)
          = Tracked (respond rt w ip (req_headers request) userAgent
                       (fallbackGeo (JString ip) False clientData))"
    if "clientUserAgent clientData = Some userAgent \<and> \<not> echoThrows clientData"
    using that by (simp add: p)
  show "fst (POST rt w request) = TrackingFailed"
    if "clientUserAgent clientData = None \<or> echoThrows clientData"
    using that by (auto simp: p split: option.splits)
next
  show "tp_location (respond rt w ip (req_headers request) userAgent
                          (fallbackGeo (JString ip) False clientData))
           = \<lparr>loc_country = ''Unknown'', loc_countryCode = ''XX'', loc_region = ''Unknown'',
              loc_city = ''Unknown'', loc_zip = ''Unknown'', loc_lat = Num 0, loc_lon = Num 0,
              loc_timezone = jsOr (getField clientData ''timezone'') (JString ''UTC'')\<rparr>"
    by (simp add: location_respond fallbackGeo_def)
next
  assume "req_body request = None"
  then show "POST rt w request = (TrackingFailed, [])"
    by (rule POST_no_body)
qed

theorem total_failure_falls_back_witness:
  "list_all (attemptFails (w_net downWorld)) (apis (rt_Number exampleRuntime) ''8.8.8.8'')
   \<and> snd (POST exampleRuntime downWorld publicRequest)
       = map api_url (apis (rt_Number exampleRuntime) ''8.8.8.8'')
   \<and> fst (POST exampleRuntime downWorld publicRequest)
       = Tracked (respond exampleRuntime downWorld ''8.8.8.8'' (req_headers publicRequest)
                    ''Mozilla/5.0 (X11; Linux)''
                    (fallbackGeo (JString ''8.8.8.8'') False exampleClient))
   \<and> tp_location (respond exampleRuntime downWorld ''8.8.8.8'' (req_headers publicRequest)
                      ''Mozilla/5.0 (X11; Linux)''
                      (fallbackGeo (JString ''8.8.8.8'') False exampleClient))
       = \<lparr>loc_country = ''Unknown'', loc_countryCode = ''XX'', loc_region = ''Unknown'',
          loc_city = ''Unknown'', loc_zip = ''Unknown'', loc_lat = Num 0, loc_lon = Num 0,
          loc_timezone = JString ''Europe/Paris''\<rparr>
   \<and> \<not> tp_dbSaved (respond exampleRuntime downWorld ''8.8.8.8'' (req_headers publicRequest)
                        ''Mozilla/5.0 (X11; Linux)''
                        (fallbackGeo (JString ''8.8.8.8'') False exampleClient))
   \<and> fst (POST exampleRuntime downWorld emptyBodyRequest) = TrackingFailed
   \<and> POST exampleRuntime downWorld \<lparr>req_headers = Map.empty, req_body = None\<rparr>
       = (TrackingFailed, [])
   \<and> fetchGeoLocationWithFallback (rt_Number exampleRuntime) (w_net downWorld) ''8.8.8.8'' False
       = (Inl AllFailed, map api_url (apis (rt_Number exampleRuntime) ''8.8.8.8''))
   \<and> (\<exists>v. fst (fetchGeoLocationWithFallback (\<lambda>s. NaN) secondAnswers ''8.8.8.8'' False) = Inr v
          \<and> populated v)"
proof -
  let ?ua = "''Mozilla/5.0 (X11; Linux)''"
  let ?g = "fallbackGeo (JString ''8.8.8.8'') False exampleClient"
  let ?r = "respond exampleRuntime downWorld ''8.8.8.8'' (req_headers publicRequest) ?ua ?g"
  have f: "\<forall>a \<in> set (apis (rt_Number exampleRuntime) ''8.8.8.8''). attemptFails (w_net downWorld) a"
    by (rule all_fail_downWorld)
  have b: "req_body publicRequest = Some exampleClient"
    by (simp add: publicRequest_def)
  have b': "req_body emptyBodyRequest = Some (JObject [])"
    by (simp add: emptyBodyRequest_def)
  have d: "\<not> tp_dbSaved ?r"
    by (simp add: respond_def Let_def downWorld_def)
  from total_failure_falls_back
         [where ip = "''8.8.8.8''" and request = publicRequest and clientData = exampleClient
            and rt = exampleRuntime and w = downWorld and userAgent = ?ua]
       f b ip_publicRequest not_local_8888 userAgent_exampleClient echo_exampleClient
  have 1: "snd (POST exampleRuntime downWorld publicRequest)
             = map api_url (apis (rt_Number exampleRuntime) ''8.8.8.8'')
       \<and> fst (POST exampleRuntime downWorld publicRequest) = Tracked ?r
       \<and> tp_location ?r
           = \<lparr>loc_country = ''Unknown'', loc_countryCode = ''XX'', loc_region = ''Unknown'',
              loc_city = ''Unknown'', loc_zip = ''Unknown'', loc_lat = Num 0, loc_lon = Num 0,
              loc_timezone = jsOr (getField exampleClient ''timezone'') (JString ''UTC'')\<rparr>"
    by blast
  from total_failure_falls_back
         [where ip = "''8.8.8.8''" and request = emptyBodyRequest and clientData = "JObject []"
            and rt = exampleRuntime and w = downWorld]
       f b' ip_emptyBodyRequest not_local_8888 userAgent_empty
  have 2: "fst (POST exampleRuntime downWorld emptyBodyRequest) = TrackingFailed"
    by blast
  obtain v where v: "transform_ipapi_co ''8.8.8.8'' exampleBody = Inr v"
    by (simp add: transform_ipapi_co_def nullish_def exampleBody_def)
  then have r: "fst (fetchGeoLocationWithFallback (\<lambda>s. NaN) secondAnswers ''8.8.8.8'' False) = Inr v"
    by (simp add: secondAnswers_resolves)
  have t: "secondAnswers (api_url (apis (\<lambda>s. NaN) ''8.8.8.8'' ! 0)) = Timeout"
    by (simp add: apis_def secondAnswers_def)
  from total_failure_falls_back
         [where Number = "\<lambda>s. NaN" and net = secondAnswers and ip = "''8.8.8.8''"
            and isLocalhost = False and v = v] r t
  have 3: "populated v"
    by simp
  from total_failure_falls_back
         [where request = "\<lparr>req_headers = Map.empty, req_body = None\<rparr>"
            and rt = exampleRuntime and w = downWorld]
  have 4: "POST exampleRuntime downWorld \<lparr>req_headers = Map.empty, req_body = None\<rparr>
             = (TrackingFailed, [])"
    by simp
  from total_failure_falls_back
         [where Number = "rt_Number exampleRuntime" and net = "w_net downWorld"
            and ip = "''8.8.8.8''"] f
  have 5: "fetchGeoLocationWithFallback (rt_Number exampleRuntime) (w_net downWorld)
             ''8.8.8.8'' False
           = (Inl AllFailed, map api_url (apis (rt_Number exampleRuntime) ''8.8.8.8''))"
    by blast
  from f 1 2 3 4 5 r d show ?thesis
    by (simp add: list_all_iff timezone_exampleClient)
qed

lemma ip_localRequest: "extractClientIP (req_headers localRequest) = ''127.0.0.1''"
  by (simp add: localRequest_def extractClientIP_def truthyStr_def)

lemma ip_localEmptyBodyRequest:
  "extractClientIP (req_headers localEmptyBodyRequest) = ''127.0.0.1''"
  by (simp add: localEmptyBodyRequest_def extractClientIP_def truthyStr_def)

lemma ip_loopbackRequest: "extractClientIP (req_headers loopbackRequest) = ''127.0.0.2''"
  by (simp add: loopbackRequest_def extractClientIP_def truthyStr_def trim_def isSpace_def)

lemma local_127001: "isLocalIP ''127.0.0.1''"
  by (simp add: isLocalIP_def)

lemma not_local_127002: "\<not> isLocalIP ''127.0.0.2''"
  by (simp add: isLocalIP_def startsWith_def)

lemma loopback_127002: "isLoopbackAddress ''127.0.0.2''"
  by code_simp

lemma private_192168: "isPrivateAddress ''192.168.1.10''"
  by code_simp

lemma probeFails_downWorld: "probeFails (w_net downWorld)"
  by (simp add: probeFails_def downWorld_def allTimeout_def)

lemma urls_127002:
  "map api_url (apis Number ''127.0.0.2'') =
     [''http://ip-api.com/json/127.0.0.2?fields=status,message,country,countryCode,region,regionName,city,zip,lat,lon,timezone,isp,org,as,reverse,mobile,proxy,hosting,query&lang=en'',
      ''https://ipapi.co/127.0.0.2/json/'',
      ''https://ipinfo.io/127.0.0.2/json'']"
  by (simp add: apis_def)

text \<open>
  Claim C3 fails as stated, on two inputs. First, 127.0.0.2 is a loopback address, and
  the handler's test does not take it for local: for a request forwarded for it, with
  every call timing out, the handler makes no call to the echo service, calls the three
  geolocation providers, and answers with the location \<open>Unknown\<close>, not the placeholder.
  Second, a request without forwarding headers, whose client IP is 127.0.0.1, and whose
  body is the empty object is answered with the error envelope (status 500) after the
  failed call to the echo service.
\<close>

theorem loopback_not_short_circuited:
  "isLoopbackAddress ''127.0.0.2''
   \<and> extractClientIP (req_headers loopbackRequest) = ''127.0.0.2''
   \<and> POST exampleRuntime downWorld loopbackRequest
       = (Tracked (respond exampleRuntime downWorld ''127.0.0.2'' (req_headers loopbackRequest)
                     ''Mozilla/5.0 (X11; Linux)''
                     (fallbackGeo (JString ''127.0.0.2'') False exampleClient)),
          [''http://ip-api.com/json/127.0.0.2?fields=status,message,country,countryCode,region,regionName,city,zip,lat,lon,timezone,isp,org,as,reverse,mobile,proxy,hosting,query&lang=en'',
           ''https://ipapi.co/127.0.0.2/json/'',
           ''https://ipinfo.io/127.0.0.2/json''])
   \<and> tp_location (respond exampleRuntime downWorld ''127.0.0.2'' (req_headers loopbackRequest)
                      ''Mozilla/5.0 (X11; Linux)''
                      (fallbackGeo (JString ''127.0.0.2'') False exampleClient))
       = \<lparr>loc_country = ''Unknown'', loc_countryCode = ''XX'', loc_region = ''Unknown'',
          loc_city = ''Unknown'', loc_zip = ''Unknown'', loc_lat = Num 0, loc_lon = Num 0,
          loc_timezone = JString ''Europe/Paris''\<rparr>
   \<and> extractClientIP (req_headers localEmptyBodyRequest) = ''127.0.0.1''
   \<and> req_body localEmptyBodyRequest = Some (JObject [])
   \<and> probeFails (w_net downWorld)
   \<and> POST exampleRuntime downWorld localEmptyBodyRequest = (TrackingFailed, [ipifyUrl])"
proof -
  have f: "fetchGeoLocationWithFallback (rt_Number exampleRuntime) (w_net downWorld)
             ''127.0.0.2'' False
           = (Inl AllFailed, map api_url (apis (rt_Number exampleRuntime) ''127.0.0.2''))"
    by (simp add: fetchGeoLocationWithFallback_def tryApis_all_fail all_fail_downWorld)
  have b: "req_body loopbackRequest = Some exampleClient"
    by (simp add: loopbackRequest_def)
  have p: "POST exampleRuntime downWorld loopbackRequest
       = (Tracked (respond exampleRuntime downWorld ''127.0.0.2'' (req_headers loopbackRequest)
                     ''Mozilla/5.0 (X11; Linux)''
                     (fallbackGeo (JString ''127.0.0.2'') False exampleClient)),
          map api_url (apis (rt_Number exampleRuntime) ''127.0.0.2''))"
    by (simp add: POST_public [OF b ip_loopbackRequest not_local_127002] f
        userAgent_exampleClient echo_exampleClient geoDataOf_def)
  have l: "tp_location (respond exampleRuntime downWorld ''127.0.0.2''
                          (req_headers loopbackRequest) ''Mozilla/5.0 (X11; Linux)''
                          (fallbackGeo (JString ''127.0.0.2'') False exampleClient))
       = \<lparr>loc_country = ''Unknown'', loc_countryCode = ''XX'', loc_region = ''Unknown'',
          loc_city = ''Unknown'', loc_zip = ''Unknown'', loc_lat = Num 0, loc_lon = Num 0,
          loc_timezone = JString ''Europe/Paris''\<rparr>"
    by (simp add: location_respond fallbackGeo_def timezone_exampleClient)
  have b': "req_body localEmptyBodyRequest = Some (JObject [])"
    by (simp add: localEmptyBodyRequest_def)
  have e: "POST exampleRuntime downWorld localEmptyBodyRequest = (TrackingFailed, [ipifyUrl])"
    by (simp add: POST_local [OF b' ip_localEmptyBodyRequest local_127001] userAgent_empty)
  from p l e b' show ?thesis
    by (simp add: loopback_127002 ip_loopbackRequest ip_localEmptyBodyRequest
        probeFails_downWorld urls_127002)
qed

text \<open>
  Claim C3, amended. The handler takes for local every private IPv4 address (10.0.0.0/8,
  172.16.0.0/12, 192.168.0.0/16) and the two loopback addresses \<open>127.0.0.1\<close> and
  \<open>::1\<close>. For a request whose body parses and whose client IP the handler takes for
  local, the only outbound call is the one call to the echo service for the public
  address; no geolocation provider is called. When the body is an object with a string
  \<open>userAgent\<close> whose entries \<open>webgl\<close>, \<open>fonts\<close> and \<open>plugins\<close> can be formatted, the
  handler answers with the success payload located in London, United Kingdom, whatever
  the echo service did; when the probe fails (its abort signal fired, the call failed
  otherwise, the status is outside 200..299, or the body is not JSON or is \<open>null\<close>),
  the location is the demo placeholder in full. On every other body it answers with the
  error envelope.
\<close>

theorem local_ip_short_circuit:
  "(isPrivateAddress ip \<or> ip = ''127.0.0.1'' \<or> ip = ''::1'' \<longrightarrow> isLocalIP ip)
   \<and> (w_net w ipifyUrl = Timeout \<or> w_net w ipifyUrl = NetworkError \<longrightarrow> probeFails (w_net w))
   \<and> (req_body request = Some clientData
        \<and> extractClientIP (req_headers request) = ip \<and> isLocalIP ip \<longrightarrow>
       snd (POST rt w request) = [ipifyUrl]
       \<and> (clientUserAgent clientData = None \<or> echoThrows clientData \<longrightarrow>
            fst (POST rt w request) = TrackingFailed)
       \<and> (clientUserAgent clientData = Some userAgent \<and> \<not> echoThrows clientData \<longrightarrow>
            (\<exists>payload. fst (POST rt w request) = Tracked payload
               \<and> loc_country (tp_location payload) = ''United Kingdom''
               \<and> loc_city (tp_location payload) = ''London''
               \<and> loc_lat (tp_location payload) = Num 51.5074
               \<and> loc_lon (tp_location payload) = Num (- 0.1278))
            \<and> (probeFails (w_net w) \<longrightarrow>
                 (\<exists>payload. fst (POST rt w request) = Tracked payload
                    \<and> tp_location payload
                        = \<lparr>loc_country = ''United Kingdom'', loc_countryCode = ''GB'',
                           loc_region = ''England'', loc_city = ''London'',
                           loc_zip = ''EC1A 1BB'', loc_lat = Num 51.5074,
                           loc_lon = Num (- 0.1278),
                           loc_timezone = JString ''Europe/London''\<rparr>))))"
proof (intro conjI impI)
  assume "isPrivateAddress ip \<or> ip = ''127.0.0.1'' \<or> ip = ''::1''"
  then show "isLocalIP ip"
    by (auto simp: private_isLocalIP) (simp_all add: isLocalIP_def)
next
  assume "w_net w ipifyUrl = Timeout \<or> w_net w ipifyUrl = NetworkError"
  then show "probeFails (w_net w)"
    by (auto simp: probeFails_def)
next
  assume a: "req_body request = Some clientData
        \<and> extractClientIP (req_headers request) = ip \<and> isLocalIP ip"
  let ?e = "probePublicIP (w_net w) ip"
  let ?g = "the (geoDataOf (fst (callResolver (rt_Number rt) (w_net w) ?e True)) ?e True
                   clientData)"
  from a have p: "POST rt w request =
     (case clientUserAgent clientData of
        None \<Rightarrow> (TrackingFailed, [ipifyUrl])
      | Some userAgent \<Rightarrow>
          if echoThrows clientData then (TrackingFailed, [ipifyUrl])
          else (Tracked (respond rt w ip (req_headers request) userAgent ?g), [ipifyUrl]))"
    by (simp add: POST_local)
  show "snd (POST rt w request) = [ipifyUrl]"
    by (simp add: p split: option.splits)
  show "fst (POST rt w request) = TrackingFailed"
    if "clientUserAgent clientData = None \<or> echoThrows clientData"
    using that by (auto simp: p split: option.splits)
  show "\<exists>payload. fst (POST rt w request) = Tracked payload
               \<and> loc_country (tp_location payload) = ''United Kingdom''
               \<and> loc_city (tp_location payload) = ''London''
               \<and> loc_lat (tp_location payload) = Num 51.5074
               \<and> loc_lon (tp_location payload) = Num (- 0.1278)"
    if u: "clientUserAgent clientData = Some userAgent \<and> \<not> echoThrows clientData"
  proof -
    from local_geoData [of "rt_Number rt" "w_net w" ?e clientData]
    have "geo_country ?g = ''United Kingdom'' \<and> geo_city ?g = ''London''
          \<and> geo_lat ?g = Num 51.5074 \<and> geo_lon ?g = Num (- 0.1278)"
      by auto
    with u show ?thesis
      by (simp add: p location_respond)
  qed
  show "\<exists>payload. fst (POST rt w request) = Tracked payload
                    \<and> tp_location payload
                        = \<lparr>loc_country = ''United Kingdom'', loc_countryCode = ''GB'',
                           loc_region = ''England'', loc_city = ''London'',
                           loc_zip = ''EC1A 1BB'', loc_lat = Num 51.5074,
                           loc_lon = Num (- 0.1278),
                           loc_timezone = JString ''Europe/London''\<rparr>"
    if u: "clientUserAgent clientData = Some userAgent \<and> \<not> echoThrows clientData"
      and f: "probeFails (w_net w)"
  proof -
    from f have "?e = JString ip"
      by (rule probeFails_keeps_ip)
    then have "?g = the (asGeo (localhostGeo (JString ip)))"
      by (simp add: local_geoData_string)
    with u show ?thesis
      by (simp add: p location_respond asGeo_localhostGeo)
  qed
qed

theorem local_ip_short_circuit_witness:
  "isPrivateAddress ''192.168.1.10'' \<and> isLocalIP ''192.168.1.10''
   \<and> isLocalIP (extractClientIP (req_headers localRequest))
   \<and> w_net downWorld ipifyUrl = Timeout
   \<and> probeFails (w_net downWorld)
   \<and> snd (POST exampleRuntime downWorld localRequest) = [ipifyUrl]
   \<and> (\<exists>payload. fst (POST exampleRuntime downWorld localRequest) = Tracked payload
         \<and> tp_location payload
             = \<lparr>loc_country = ''United Kingdom'', loc_countryCode = ''GB'',
                loc_region = ''England'', loc_city = ''London'', loc_zip = ''EC1A 1BB'',
                loc_lat = Num 51.5074, loc_lon = Num (- 0.1278),
                loc_timezone = JString ''Europe/London''\<rparr>)
   \<and> fst (POST exampleRuntime downWorld localEmptyBodyRequest) = TrackingFailed"
proof -
  have b: "req_body localRequest = Some exampleClient"
    by (simp add: localRequest_def)
  have b': "req_body localEmptyBodyRequest = Some (JObject [])"
    by (simp add: localEmptyBodyRequest_def)
  have t: "w_net downWorld ipifyUrl = Timeout"
    by (simp add: downWorld_def allTimeout_def)
  from local_ip_short_circuit [where ip = "''192.168.1.10''"] private_192168
  have 1: "isLocalIP ''192.168.1.10''"
    by blast
  from local_ip_short_circuit [where w = downWorld] t
  have 2: "probeFails (w_net downWorld)"
    by blast
  from local_ip_short_circuit
         [where request = localRequest and clientData = exampleClient and ip = "''127.0.0.1''"
            and rt = exampleRuntime and w = downWorld and userAgent = "''Mozilla/5.0 (X11; Linux)''"]
       b ip_localRequest local_127001 2 userAgent_exampleClient echo_exampleClient
  have 3: "snd (POST exampleRuntime downWorld localRequest) = [ipifyUrl]
     \<and> (\<exists>payload. fst (POST exampleRuntime downWorld localRequest) = Tracked payload
             \<and> tp_location payload
                 = \<lparr>loc_country = ''United Kingdom'', loc_countryCode = ''GB'',
                    loc_region = ''England'', loc_city = ''London'', loc_zip = ''EC1A 1BB'',
                    loc_lat = Num 51.5074, loc_lon = Num (- 0.1278),
                    loc_timezone = JString ''Europe/London''\<rparr>)"
    by blast
  from local_ip_short_circuit
         [where request = localEmptyBodyRequest and clientData = "JObject []"
            and ip = "''127.0.0.1''" and rt = exampleRuntime and w = downWorld]
       b' ip_localEmptyBodyRequest local_127001 userAgent_empty
  have 4: "fst (POST exampleRuntime downWorld localEmptyBodyRequest) = TrackingFailed"
    by blast
  from 1 2 3 4 t show ?thesis
    by (simp add: private_192168 ip_localRequest local_127001)
qed

text \<open>An address the echo service reports only becomes the \<open>query\<close> of the simulated
  record; a report that cannot be formatted as a string makes the resolver throw before
  its test for a local address, and the handler substitutes its own London record.\<close>

lemma local_ip_probe_success:
  assumes "req_body request = Some clientData"
    and "extractClientIP (req_headers request) = ip"
    and "isLocalIP ip"
    and "clientUserAgent clientData = Some userAgent"
    and "\<not> echoThrows clientData"
  shows "POST rt w request =
           (Tracked (respond rt w ip (req_headers request) userAgent
                       (if templateThrows (probePublicIP (w_net w) ip)
                        then fallbackGeo (probePublicIP (w_net w) ip) True clientData
                        else the (asGeo (localhostGeo (probePublicIP (w_net w) ip))))),
            [ipifyUrl])"
  using assms by (simp add: POST_local callResolver_local geoDataOf_def)

text \<open>The handler's test is wider than the private blocks on one side: it takes every
  address that starts with \<open>172.\<close> for local, also the public ones.\<close>

lemma public_172_taken_for_local:
  "isLocalIP ''172.217.0.1'' \<and> \<not> isPrivateAddress ''172.217.0.1''
   \<and> \<not> isLoopbackAddress ''172.217.0.1''"
  by code_simp

section \<open>The dashboard on empty and non-empty tables\<close>

lemma set_orderByDesc: "set (orderByDesc key rows) = set rows"
  by (simp add: orderByDesc_def)

lemma length_orderByDesc: "length (orderByDesc key rows) = length rows"
  by (simp add: orderByDesc_def)

lemma sorted_orderByDesc: "sorted_wrt (\<lambda>a b. key b \<le> key a) (orderByDesc key rows)"
proof -
  have "sorted (map (\<lambda>r. - key r) (sort_key (\<lambda>r. - key r) rows))"
    by (rule sorted_sort_key)
  then show ?thesis
    by (simp add: orderByDesc_def sorted_map)
qed

lemma visitorLocationsOf_eq:
  "visitorLocationsOf rows =
     map selectLocation (take 100 (orderByDesc v_visitedAt (filter located rows)))"
  unfolding visitorLocationsOf_def selectLocation_def [abs_def] located_def [abs_def]
  by (rule refl)

lemma ispDataOf_Nil_iff: "ispDataOf rows = [] \<longleftrightarrow> rows = []"
  by (cases rows) (simp_all add: ispDataOf_def orderByDesc_def take_Cons' flip: length_0_conv)

lemma GET_nonempty:
  "rows \<noteq> [] \<Longrightarrow> \<exists>p. GET clk (Some rows) = Dashboard p
      \<and> dp_visitorLocations p = visitorLocationsOf rows \<and> dp_totalVisitors p = length rows"
  by (simp add: GET_def Let_def ispDataOf_Nil_iff)

lemma GET_empty: "GET clk (Some []) = NotFound ''No ISP data available'' (clk_nowIso clk)"
  by (simp add: GET_def Let_def ispDataOf_def orderByDesc_def)

lemma locations_nonzero:
  "l \<in> set (visitorLocationsOf rows) \<Longrightarrow> vl_latitude l \<noteq> 0 \<and> vl_longitude l \<noteq> 0"
proof -
  assume "l \<in> set (visitorLocationsOf rows)"
  then obtain v where "v \<in> set (take 100 (orderByDesc v_visitedAt (filter located rows)))"
    and l: "l = selectLocation v"
    by (auto simp: visitorLocationsOf_eq)
  then have "v \<in> set (orderByDesc v_visitedAt (filter located rows))"
    by (blast dest: in_set_takeD)
  then have "located v"
    by (simp add: set_orderByDesc)
  with l show ?thesis
    by (simp add: located_def selectLocation_def)
qed

lemma locations_from_table:
  "l \<in> set (visitorLocationsOf rows) \<Longrightarrow> \<exists>v \<in> set rows. located v \<and> l = selectLocation v"
proof -
  assume "l \<in> set (visitorLocationsOf rows)"
  then obtain v where "v \<in> set (take 100 (orderByDesc v_visitedAt (filter located rows)))"
    and l: "l = selectLocation v"
    by (auto simp: visitorLocationsOf_eq)
  then have "v \<in> set (orderByDesc v_visitedAt (filter located rows))"
    by (blast dest: in_set_takeD)
  then have "v \<in> set rows \<and> located v"
    by (simp add: set_orderByDesc)
  with l show ?thesis by blast
qed

lemma locations_sorted:
  "sorted_wrt (\<lambda>a b. vl_visitedAt b \<le> vl_visitedAt a) (visitorLocationsOf rows)"
proof -
  have "sorted_wrt (\<lambda>a b. v_visitedAt b \<le> v_visitedAt a)
          (take 100 (orderByDesc v_visitedAt (filter located rows)))"
    by (rule sorted_wrt_take) (rule sorted_orderByDesc)
  then show ?thesis
    by (simp add: visitorLocationsOf_eq sorted_wrt_map selectLocation_def)
qed

lemma locations_length:
  "length (visitorLocationsOf rows) = min 100 (length (filter located rows))"
  by (simp add: visitorLocationsOf_eq length_orderByDesc min.commute)

lemma zero_row_not_listed:
  "v_latitude v = 0 \<and> v_longitude v = 0 \<Longrightarrow> selectLocation v \<notin> set (visitorLocationsOf rows)"
proof
  assume z: "v_latitude v = 0 \<and> v_longitude v = 0"
    and "selectLocation v \<in> set (visitorLocationsOf rows)"
  then have "vl_latitude (selectLocation v) \<noteq> 0"
    by (blast dest: locations_nonzero)
  with z show False by (simp add: selectLocation_def)
qed

text \<open>
  Claim C10. For every state of the visitor table, the visitor-locations list of the
  dashboard (returned whenever the table is not empty) holds only rows whose latitude
  and longitude are both nonzero, taken from the table, in descending order of the visit
  time, and as many of them as there are up to 100. A visitor stored with the defaulted
  coordinates (0, 0) is not in the list.
\<close>

theorem visitor_locations_filtered:
  "(rows \<noteq> [] \<longrightarrow>
      (\<exists>p. GET clk (Some rows) = Dashboard p \<and> dp_visitorLocations p = visitorLocationsOf rows))
   \<and> (\<forall>l \<in> set (visitorLocationsOf rows). vl_latitude l \<noteq> 0 \<and> vl_longitude l \<noteq> 0)
   \<and> (\<forall>l \<in> set (visitorLocationsOf rows). \<exists>v \<in> set rows. located v \<and> l = selectLocation v)
   \<and> sorted_wrt (\<lambda>a b. vl_visitedAt b \<le> vl_visitedAt a) (visitorLocationsOf rows)
   \<and> length (visitorLocationsOf rows) = min 100 (length (filter located rows))
   \<and> (\<forall>v \<in> set rows. v_latitude v = 0 \<and> v_longitude v = 0 \<longrightarrow>
         selectLocation v \<notin> set (visitorLocationsOf rows))"
  using GET_nonempty [of rows clk] locations_nonzero [of _ rows] locations_from_table [of _ rows]
    locations_sorted [of rows] locations_length [of rows] zero_row_not_listed [of _ rows]
  by blast

lemma groupByCount_Nil: "groupByCount key [] = []"
  by (simp add: groupByCount_def)

lemma top10_Nil: "top10 [] = []"
  by (simp add: top10_def)

lemma countBetween_Nil: "countBetween lo hi [] = 0"
  by (simp add: countBetween_def)

text \<open>
  Claim C9. On a visitor table with zero rows the dashboard does not answer with the
  payload but with the 404 envelope \<open>No ISP data available\<close>. The 404 is returned
  exactly when the query for the 50 most recent IPs is empty, which is exactly when the
  table is empty. The aggregates computed before that test are all defined on the empty
  table: the total and the numbers of countries and devices are 0, the recent visitors,
  the top lists and the locations are empty, and each of the 24 hourly counts is 0.
\<close>

theorem empty_table_not_found:
  "GET clk (Some []) = NotFound ''No ISP data available'' (clk_nowIso clk)
   \<and> (\<forall>rows. (\<exists>msg ts. GET clk (Some rows) = NotFound msg ts) \<longleftrightarrow> ispDataOf rows = [])
   \<and> (\<forall>rows. ispDataOf rows = [] \<longleftrightarrow> rows = [])
   \<and> length ([] :: Visitor list) = 0
   \<and> length (groupByCount v_country []) = 0
   \<and> length (groupByCount v_device []) = 0
   \<and> recentVisitorsOf clk [] = []
   \<and> top10 (groupByCount v_country []) = []
   \<and> top10 (groupByCount v_browser []) = []
   \<and> top10 (groupByCount v_device []) = []
   \<and> top10 (groupByCount v_os []) = []
   \<and> length (hourlyDataOf clk []) = 24
   \<and> (\<forall>e \<in> set (hourlyDataOf clk []). he_count e = 0)
   \<and> visitorLocationsOf [] = []"
proof (intro conjI allI)
  show "GET clk (Some []) = NotFound ''No ISP data available'' (clk_nowIso clk)"
    by (rule GET_empty)
  show "(\<exists>msg ts. GET clk (Some rows) = NotFound msg ts) \<longleftrightarrow> ispDataOf rows = []" for rows
    by (simp add: GET_def Let_def)
  show "ispDataOf rows = [] \<longleftrightarrow> rows = []" for rows
    by (rule ispDataOf_Nil_iff)
  show "recentVisitorsOf clk [] = []"
    by (simp add: recentVisitorsOf_def orderByDesc_def)
  show "length (hourlyDataOf clk []) = 24"
    by (simp add: hourlyDataOf_def)
  show "\<forall>e \<in> set (hourlyDataOf clk []). he_count e = 0"
    by (auto simp: hourlyDataOf_def countBetween_Nil)
  show "visitorLocationsOf [] = []"
    by (simp add: visitorLocationsOf_def orderByDesc_def)
qed (simp_all add: groupByCount_Nil top10_Nil)


lemma locations_exampleTable:
  "visitorLocationsOf exampleTable = [selectLocation londonVisitor, selectLocation parisVisitor]"
  by (simp add: visitorLocationsOf_eq exampleTable_def orderByDesc_def located_def
      parisVisitor_def unknownVisitor_def londonVisitor_def)

theorem visitor_locations_filtered_witness:
  "exampleTable \<noteq> []
   \<and> (\<exists>p. GET exampleClock (Some exampleTable) = Dashboard p
         \<and> dp_visitorLocations p = [selectLocation londonVisitor, selectLocation parisVisitor])
   \<and> selectLocation londonVisitor \<in> set (visitorLocationsOf exampleTable)
   \<and> vl_latitude (selectLocation londonVisitor) \<noteq> 0
   \<and> unknownVisitor \<in> set exampleTable
   \<and> v_latitude unknownVisitor = 0 \<and> v_longitude unknownVisitor = 0
   \<and> selectLocation unknownVisitor \<notin> set (visitorLocationsOf exampleTable)"
proof -
  have n: "exampleTable \<noteq> []"
    by (simp add: exampleTable_def)
  have m: "selectLocation londonVisitor \<in> set (visitorLocationsOf exampleTable)"
    by (simp add: locations_exampleTable)
  have u: "unknownVisitor \<in> set exampleTable"
    "v_latitude unknownVisitor = 0 \<and> v_longitude unknownVisitor = 0"
    by (simp_all add: exampleTable_def unknownVisitor_def)
  note t = visitor_locations_filtered [of exampleTable exampleClock]
  from t n have "\<exists>p. GET exampleClock (Some exampleTable) = Dashboard p
         \<and> dp_visitorLocations p = visitorLocationsOf exampleTable"
    by blast
  moreover from t m have "vl_latitude (selectLocation londonVisitor) \<noteq> 0"
    by blast
  moreover from t u have "selectLocation unknownVisitor \<notin> set (visitorLocationsOf exampleTable)"
    by blast
  ultimately show ?thesis
    using n m u by (simp add: locations_exampleTable)
qed

theorem empty_table_not_found_witness:
  "GET exampleClock (Some []) = NotFound ''No ISP data available'' ''2023-11-14T22:13:20.000Z''
   \<and> hd (hourlyDataOf exampleClock []) \<in> set (hourlyDataOf exampleClock [])
   \<and> he_count (hd (hourlyDataOf exampleClock [])) = 0
   \<and> (\<exists>p. GET exampleClock (Some exampleTable) = Dashboard p)"
proof -
  note t = empty_table_not_found [of exampleClock]
  from t have l: "length (hourlyDataOf exampleClock []) = 24"
    by blast
  then have h: "hd (hourlyDataOf exampleClock []) \<in> set (hourlyDataOf exampleClock [])"
    by (cases "hourlyDataOf exampleClock []") simp_all
  with t have "he_count (hd (hourlyDataOf exampleClock [])) = 0"
    by blast
  moreover from t have "GET exampleClock (Some [])
      = NotFound ''No ISP data available'' (clk_nowIso exampleClock)"
    by blast
  moreover have "exampleTable \<noteq> []"
    by (simp add: exampleTable_def)
  with t have "\<not> (\<exists>msg ts. GET exampleClock (Some exampleTable) = NotFound msg ts)"
    by blast
  then have "\<exists>p. GET exampleClock (Some exampleTable) = Dashboard p"
    by (cases "GET exampleClock (Some exampleTable)") (simp_all add: GET_def Let_def split: if_splits)
  ultimately show ?thesis
    using h by (simp add: exampleClock_def)
qed

end
